theory Spec2Isabelle
  imports Main "HOL-Library.AList"
begin

section \<open>Strings\<close>

text \<open>
  A Python \<open>str\<close> is a sequence of Unicode code points; it is modelled as the list of
  its code points. \<open>asc\<close> turns an ASCII literal into such a list. The Japanese literals of
  the source are given by their code points, with a transliterated name.
\<close>

type_synonym pystr = "nat list"

definition asc :: "string \<Rightarrow> pystr" where
  "asc s = map of_char s"

text \<open>Truthiness of a \<open>str\<close> and of an \<open>Optional[str]\<close>.\<close>

definition truthy :: "pystr option \<Rightarrow> bool" where
  "truthy x = (case x of None \<Rightarrow> False | Some s \<Rightarrow> s \<noteq> [])"

text \<open>
  The characters that \<open>\s\<close> matches in a \<open>str\<close> pattern and that \<open>str.strip()\<close>
  removes: the code points for which \<open>str.isspace()\<close> holds.
\<close>

definition is_space :: "nat \<Rightarrow> bool" where
  "is_space c \<longleftrightarrow>
     (9 \<le> c \<and> c \<le> 13) \<or> (28 \<le> c \<and> c \<le> 32) \<or> c = 133 \<or> c = 160 \<or> c = 5760 \<or>
     (8192 \<le> c \<and> c \<le> 8202) \<or> c = 8232 \<or> c = 8233 \<or> c = 8239 \<or> c = 8287 \<or> c = 12288"

definition strip :: "pystr \<Rightarrow> pystr" where
  "strip s = rev (dropWhile is_space (rev (dropWhile is_space s)))"

text \<open>\<open>re.sub(r"\s+", " ", text)\<close>: every maximal run of whitespace becomes one space.\<close>

function sub_spaces :: "pystr \<Rightarrow> pystr" where
  "sub_spaces [] = []"
| "sub_spaces (c # cs) =
     (if is_space c then 32 # sub_spaces (dropWhile is_space cs) else c # sub_spaces cs)"
  by pat_completeness auto
termination
  by (relation "measure length") (auto simp: length_dropWhile_le less_Suc_eq_le)

definition normalize_text :: "pystr \<Rightarrow> pystr" where
  "normalize_text text = strip (sub_spaces text)"

text \<open>\<open>key in label\<close> for two strings: \<open>key\<close> occurs in \<open>label\<close> as a contiguous run.\<close>

fun startswith :: "pystr \<Rightarrow> pystr \<Rightarrow> bool" where
  "startswith s [] = True"
| "startswith [] (k # ks) = False"
| "startswith (c # cs) (k # ks) = (c = k \<and> startswith cs ks)"

fun str_in :: "pystr \<Rightarrow> pystr \<Rightarrow> bool" where
  "str_in key [] = (key = [])"
| "str_in key (c # cs) = (startswith (c # cs) key \<or> str_in key cs)"

text \<open>\<open>sep.join(parts)\<close>.\<close>

fun join :: "pystr \<Rightarrow> pystr list \<Rightarrow> pystr" where
  "join sep [] = []"
| "join sep [x] = x"
| "join sep (x # y # ys) = x @ sep @ join sep (y # ys)"

text \<open>The pieces of a string between runs of whitespace (\<open>\S+\<close>).\<close>

function words :: "pystr \<Rightarrow> pystr list" where
  "words s =
     (case dropWhile is_space s of
        [] \<Rightarrow> []
      | c # cs \<Rightarrow> takeWhile (\<lambda>x. \<not> is_space x) (c # cs) # words (dropWhile (\<lambda>x. \<not> is_space x) cs))"
  by pat_completeness auto
termination
proof (relation "measure length", simp, goal_cases)
  case (1 s c cs)
  have "length (dropWhile (\<lambda>x. \<not> is_space x) cs) \<le> length cs"
    by (rule length_dropWhile_le)
  also have "length cs < length (dropWhile is_space s)"
    using 1 by simp
  also have "\<dots> \<le> length s"
    by (rule length_dropWhile_le)
  finally show ?case by simp
qed

section \<open>Constants of the program\<close>

definition url_key :: pystr where
  "url_key = asc ''url''"

definition sep_slash :: pystr where
  \<comment> \<open>the separator \<open>" / "\<close>\<close>
  "sep_slash = asc '' / ''"

definition bukkenmei :: pystr where
  \<comment> \<open>U+7269 U+4EF6 U+540D: property name\<close>
  "bukkenmei = [0x7269, 0x4EF6, 0x540D]"

definition kakaku :: pystr where
  \<comment> \<open>U+4FA1 U+683C: price\<close>
  "kakaku = [0x4FA1, 0x683C]"

definition shozaichi :: pystr where
  \<comment> \<open>U+6240 U+5728 U+5730: address\<close>
  "shozaichi = [0x6240, 0x5728, 0x5730]"

definition kotsu :: pystr where
  \<comment> \<open>U+4EA4 U+901A: transport\<close>
  "kotsu = [0x4EA4, 0x901A]"

definition madori :: pystr where
  \<comment> \<open>U+9593 U+53D6 U+308A: floor plan\<close>
  "madori = [0x9593, 0x53D6, 0x308A]"

definition senyu_menseki :: pystr where
  \<comment> \<open>U+5C02 U+6709 U+9762 U+7A4D: exclusive floor area\<close>
  "senyu_menseki = [0x5C02, 0x6709, 0x9762, 0x7A4D]"

definition barukoni_menseki :: pystr where
  \<comment> \<open>U+30D0 U+30EB U+30B3 U+30CB U+30FC U+9762 U+7A4D: balcony area\<close>
  "barukoni_menseki = [0x30D0, 0x30EB, 0x30B3, 0x30CB, 0x30FC, 0x9762, 0x7A4D]"

definition chikunensu_col :: pystr where
  \<comment> \<open>U+7BC9 U+5E74 U+6570 U+FF08 U+7BC9 U+5E74 U+6708 U+FF09: building age (year and month built), fullwidth brackets\<close>
  "chikunensu_col = [0x7BC9, 0x5E74, 0x6570, 0xFF08, 0x7BC9, 0x5E74, 0x6708, 0xFF09]"

definition kaisu_shozaikai :: pystr where
  \<comment> \<open>U+968E U+6570 U+0020 U+002F U+0020 U+6240 U+5728 U+968E: number of floors / floor of the unit\<close>
  "kaisu_shozaikai = [0x968E, 0x6570, 0x20, 0x2F, 0x20, 0x6240, 0x5728, 0x968E]"

definition muki :: pystr where
  \<comment> \<open>U+5411 U+304D: orientation\<close>
  "muki = [0x5411, 0x304D]"

definition kanrihi :: pystr where
  \<comment> \<open>U+7BA1 U+7406 U+8CBB: management fee\<close>
  "kanrihi = [0x7BA1, 0x7406, 0x8CBB]"

definition shuzen_tsumitatekin :: pystr where
  \<comment> \<open>U+4FEE U+7E55 U+7A4D U+7ACB U+91D1: repair reserve fund\<close>
  "shuzen_tsumitatekin = [0x4FEE, 0x7E55, 0x7A4D, 0x7ACB, 0x91D1]"

definition sonota_hiyo :: pystr where
  \<comment> \<open>U+305D U+306E U+4ED6 U+8CBB U+7528: other costs\<close>
  "sonota_hiyo = [0x305D, 0x306E, 0x4ED6, 0x8CBB, 0x7528]"

definition hikiwatashi_jiki :: pystr where
  \<comment> \<open>U+5F15 U+6E21 U+3057 U+6642 U+671F: handover date\<close>
  "hikiwatashi_jiki = [0x5F15, 0x6E21, 0x3057, 0x6642, 0x671F]"

definition torihiki_taiyo :: pystr where
  \<comment> \<open>U+53D6 U+5F15 U+614B U+69D8: transaction type\<close>
  "torihiki_taiyo = [0x53D6, 0x5F15, 0x614B, 0x69D8]"

definition joho_koshinbi :: pystr where
  \<comment> \<open>U+60C5 U+5831 U+66F4 U+65B0 U+65E5: information updated on\<close>
  "joho_koshinbi = [0x60C5, 0x5831, 0x66F4, 0x65B0, 0x65E5]"

definition jikai_koshin_col :: pystr where
  \<comment> \<open>U+6B21 U+56DE U+66F4 U+65B0 U+4E88 U+5B9A U+65E5 U+FF08 U+3042 U+308C U+3070 U+FF09: next scheduled update (if any), fullwidth brackets\<close>
  "jikai_koshin_col = [0x6B21, 0x56DE, 0x66F4, 0x65B0, 0x4E88, 0x5B9A, 0x65E5, 0xFF08, 0x3042, 0x308C, 0x3070, 0xFF09]"

definition tatemono_kozo_col :: pystr where
  \<comment> \<open>U+5EFA U+7269 U+69CB U+9020 U+FF08 U+0052 U+0043 U+0020 U+002F U+0020 U+0053 U+0052 U+0043 U+0020 U+7B49 U+FF09: building structure (RC / SRC etc.), fullwidth brackets\<close>
  "tatemono_kozo_col = [0x5EFA, 0x7269, 0x69CB, 0x9020, 0xFF08, 0x52, 0x43, 0x20, 0x2F, 0x20, 0x53, 0x52, 0x43, 0x20, 0x7B49, 0xFF09]"

definition sokosu :: pystr where
  \<comment> \<open>U+7DCF U+6238 U+6570: total number of units\<close>
  "sokosu = [0x7DCF, 0x6238, 0x6570]"

definition chushajo :: pystr where
  \<comment> \<open>U+99D0 U+8ECA U+5834: parking\<close>
  "chushajo = [0x99D0, 0x8ECA, 0x5834]"

definition yoto_chiiki :: pystr where
  \<comment> \<open>U+7528 U+9014 U+5730 U+57DF: zoning\<close>
  "yoto_chiiki = [0x7528, 0x9014, 0x5730, 0x57DF]"

definition tochi_kenri :: pystr where
  \<comment> \<open>U+571F U+5730 U+6A29 U+5229: land rights\<close>
  "tochi_kenri = [0x571F, 0x5730, 0x6A29, 0x5229]"

definition kanri_col :: pystr where
  \<comment> \<open>U+7BA1 U+7406 U+5F62 U+614B U+0020 U+002F U+0020 U+7BA1 U+7406 U+4F1A U+793E: management form / management company\<close>
  "kanri_col = [0x7BA1, 0x7406, 0x5F62, 0x614B, 0x20, 0x2F, 0x20, 0x7BA1, 0x7406, 0x4F1A, 0x793E]"

definition rifomu_col :: pystr where
  \<comment> \<open>U+30EA U+30D5 U+30A9 U+30FC U+30E0 U+FF08 U+6709 U+7121 U+30FB U+5185 U+5BB9 U+304C U+53D6 U+308C U+308C U+3070 U+FF09: renovation (whether, and what if available), fullwidth brackets\<close>
  "rifomu_col = [0x30EA, 0x30D5, 0x30A9, 0x30FC, 0x30E0, 0xFF08, 0x6709, 0x7121, 0x30FB, 0x5185, 0x5BB9, 0x304C, 0x53D6, 0x308C, 0x308C, 0x3070, 0xFF09]"

definition hanbai_kakaku :: pystr where
  \<comment> \<open>U+8CA9 U+58F2 U+4FA1 U+683C: sale price\<close>
  "hanbai_kakaku = [0x8CA9, 0x58F2, 0x4FA1, 0x683C]"

definition barukoni :: pystr where
  \<comment> \<open>U+30D0 U+30EB U+30B3 U+30CB U+30FC: balcony\<close>
  "barukoni = [0x30D0, 0x30EB, 0x30B3, 0x30CB, 0x30FC]"

definition chikunensu :: pystr where
  \<comment> \<open>U+7BC9 U+5E74 U+6570: building age\<close>
  "chikunensu = [0x7BC9, 0x5E74, 0x6570]"

definition chikunengetsu :: pystr where
  \<comment> \<open>U+7BC9 U+5E74 U+6708: year and month built\<close>
  "chikunengetsu = [0x7BC9, 0x5E74, 0x6708]"

definition hikiwatashi :: pystr where
  \<comment> \<open>U+5F15 U+6E21: handover (two characters)\<close>
  "hikiwatashi = [0x5F15, 0x6E21]"

definition hikiwatashi_shi :: pystr where
  \<comment> \<open>U+5F15 U+6E21 U+3057: handover (with okurigana)\<close>
  "hikiwatashi_shi = [0x5F15, 0x6E21, 0x3057]"

definition jikai_koshinbi :: pystr where
  \<comment> \<open>U+6B21 U+56DE U+66F4 U+65B0 U+65E5: next update date\<close>
  "jikai_koshinbi = [0x6B21, 0x56DE, 0x66F4, 0x65B0, 0x65E5]"

definition jikai_koshin_yoteibi :: pystr where
  \<comment> \<open>U+6B21 U+56DE U+66F4 U+65B0 U+4E88 U+5B9A U+65E5: next scheduled update date\<close>
  "jikai_koshin_yoteibi = [0x6B21, 0x56DE, 0x66F4, 0x65B0, 0x4E88, 0x5B9A, 0x65E5]"

definition kozo :: pystr where
  \<comment> \<open>U+69CB U+9020: structure\<close>
  "kozo = [0x69CB, 0x9020]"

definition tatemono_kozo :: pystr where
  \<comment> \<open>U+5EFA U+7269 U+69CB U+9020: building structure\<close>
  "tatemono_kozo = [0x5EFA, 0x7269, 0x69CB, 0x9020]"

definition kanri_keitai :: pystr where
  \<comment> \<open>U+7BA1 U+7406 U+5F62 U+614B: management form\<close>
  "kanri_keitai = [0x7BA1, 0x7406, 0x5F62, 0x614B]"

definition kanri_gaisha :: pystr where
  \<comment> \<open>U+7BA1 U+7406 U+4F1A U+793E: management company\<close>
  "kanri_gaisha = [0x7BA1, 0x7406, 0x4F1A, 0x793E]"

definition rifomu :: pystr where
  \<comment> \<open>U+30EA U+30D5 U+30A9 U+30FC U+30E0: reform (renovation)\<close>
  "rifomu = [0x30EA, 0x30D5, 0x30A9, 0x30FC, 0x30E0]"

definition rinobeshon :: pystr where
  \<comment> \<open>U+30EA U+30CE U+30D9 U+30FC U+30B7 U+30E7 U+30F3: renovation\<close>
  "rinobeshon = [0x30EA, 0x30CE, 0x30D9, 0x30FC, 0x30B7, 0x30E7, 0x30F3]"

definition shozaikai :: pystr where
  \<comment> \<open>U+6240 U+5728 U+968E: floor of the unit\<close>
  "shozaikai = [0x6240, 0x5728, 0x968E]"

definition kaisu :: pystr where
  \<comment> \<open>U+968E U+6570: number of floors\<close>
  "kaisu = [0x968E, 0x6570]"

definition tsugi_e :: pystr where
  \<comment> \<open>U+6B21 U+3078: next\<close>
  "tsugi_e = [0x6B21, 0x3078]"

definition tsugi_no_30_ken :: pystr where
  \<comment> \<open>U+6B21 U+306E U+0033 U+0030 U+4EF6: next 30 items\<close>
  "tsugi_no_30_ken = [0x6B21, 0x306E, 0x33, 0x30, 0x4EF6]"

definition tsugi_no_peji :: pystr where
  \<comment> \<open>U+6B21 U+306E U+30DA U+30FC U+30B8: next page\<close>
  "tsugi_no_peji = [0x6B21, 0x306E, 0x30DA, 0x30FC, 0x30B8]"


definition COLUMNS :: "pystr list" where
  "COLUMNS =
    [url_key,
     bukkenmei,
     kakaku,
     shozaichi,
     kotsu,
     madori,
     senyu_menseki,
     barukoni_menseki,
     chikunensu_col,
     kaisu_shozaikai,
     muki,
     kanrihi,
     shuzen_tsumitatekin,
     sonota_hiyo,
     hikiwatashi_jiki,
     torihiki_taiyo,
     joho_koshinbi,
     jikai_koshin_col,
     tatemono_kozo_col,
     sokosu,
     chushajo,
     yoto_chiiki,
     tochi_kenri,
     kanri_col,
     rifomu_col]"

definition LABEL_MAP :: "(pystr \<times> pystr) list" where
  "LABEL_MAP =
    [(bukkenmei, bukkenmei),
     (kakaku, kakaku),
     (hanbai_kakaku, kakaku),
     (shozaichi, shozaichi),
     (kotsu, kotsu),
     (madori, madori),
     (senyu_menseki, senyu_menseki),
     (barukoni_menseki, barukoni_menseki),
     (barukoni, barukoni_menseki),
     (chikunensu, chikunensu_col),
     (chikunengetsu, chikunensu_col),
     (muki, muki),
     (kanrihi, kanrihi),
     (shuzen_tsumitatekin, shuzen_tsumitatekin),
     (sonota_hiyo, sonota_hiyo),
     (hikiwatashi, hikiwatashi_jiki),
     (hikiwatashi_shi, hikiwatashi_jiki),
     (torihiki_taiyo, torihiki_taiyo),
     (joho_koshinbi, joho_koshinbi),
     (jikai_koshinbi, jikai_koshin_col),
     (jikai_koshin_yoteibi, jikai_koshin_col),
     (kozo, tatemono_kozo_col),
     (tatemono_kozo, tatemono_kozo_col),
     (sokosu, sokosu),
     (chushajo, chushajo),
     (yoto_chiiki, yoto_chiiki),
     (tochi_kenri, tochi_kenri),
     (kanri_keitai, kanri_col),
     (kanri_gaisha, kanri_col),
     (rifomu, rifomu_col),
     (rinobeshon, rifomu_col)]"

section \<open>Parsed documents\<close>

text \<open>
  \<open>BeautifulSoup(html, "html.parser")\<close> is a library call: the tree it builds is modelled
  as a datatype, and the parser itself is a parameter of every function that calls it
  (\<open>None\<close> when the constructor raises). A \<open>Tag\<close> has a name, attributes and contents;
  the \<open>BeautifulSoup\<close> object is the root \<open>Tag\<close>. A \<open>Tag\<close> is always truthy, so
  \<open>if not tag\<close> tests for \<open>None\<close> only. Comments and the other string kinds that
  \<open>get_text\<close> leaves out are not part of the tree.
\<close>

datatype node =
    NavigableString pystr
  | Tag (tag_name: pystr) (tag_attrs: "(pystr \<times> pystr) list") (tag_contents: "node list")

type_synonym html_parser = "pystr \<Rightarrow> node option"

fun is_tag :: "node \<Rightarrow> bool" where
  "is_tag (Tag n a cs) = True"
| "is_tag (NavigableString s) = False"

text \<open>The nodes below a node in document order, each with its ancestors (nearest first).\<close>

fun below :: "node list \<Rightarrow> node \<Rightarrow> (node \<times> node list) list"
  and below_list :: "node list \<Rightarrow> node list \<Rightarrow> (node \<times> node list) list" where
  "below anc (NavigableString s) = []"
| "below anc (Tag n a cs) = below_list (Tag n a cs # anc) cs"
| "below_list anc [] = []"
| "below_list anc (c # cs) = (c, anc) # below anc c @ below_list anc cs"

definition descendants :: "node \<Rightarrow> node list" where
  "descendants n = map fst (below [] n)"

text \<open>\<open>tag.get(key)\<close>, \<open>tag.find_all(name)\<close> and \<open>tag.find(name)\<close>.\<close>

definition get_attr :: "node \<Rightarrow> pystr \<Rightarrow> pystr option" where
  "get_attr t key = (case t of NavigableString s \<Rightarrow> None | Tag n a cs \<Rightarrow> map_of a key)"

definition find_all :: "node \<Rightarrow> pystr \<Rightarrow> node list" where
  "find_all n nm = filter (\<lambda>t. is_tag t \<and> tag_name t = nm) (descendants n)"

definition find_tag :: "node \<Rightarrow> pystr \<Rightarrow> node option" where
  "find_tag n nm = (case find_all n nm of [] \<Rightarrow> None | t # ts \<Rightarrow> Some t)"

text \<open>
  \<open>tag.get_text()\<close> concatenates the strings below the tag;
  \<open>tag.get_text(" ", strip=True)\<close> strips each, drops the empty ones and joins the rest
  with a space.
\<close>

fun strings_of :: "node list \<Rightarrow> pystr list" where
  "strings_of [] = []"
| "strings_of (NavigableString s # ns) = s # strings_of ns"
| "strings_of (Tag n a cs # ns) = strings_of ns"

definition get_text :: "node \<Rightarrow> pystr" where
  "get_text n = concat (strings_of (descendants n))"

definition get_text_strip :: "node \<Rightarrow> pystr" where
  "get_text_strip n =
     join (asc '' '') (filter (\<lambda>s. s \<noteq> []) (map strip (strings_of (descendants n))))"

subsection \<open>CSS selectors\<close>

text \<open>
  The selectors the program uses: compound selectors made of a type, classes and
  attribute tests, chained by the descendant combinator. A selector is the list of its
  compounds, outermost first: \<open>.property_view h1\<close> is
  \<open>[[Class_sel property_view], [Type_sel h1]]\<close>. The parser stores \<open>class\<close> and
  \<open>rel\<close> as lists of words; an equality test on such an attribute compares with the
  words joined by single spaces.
\<close>

datatype simple_selector =
    Type_sel pystr
  | Class_sel pystr
  | Attr_sel pystr
  | Attr_eq_sel pystr pystr

type_synonym selector = "simple_selector list list"

definition list_valued :: "pystr \<Rightarrow> bool" where
  "list_valued key \<longleftrightarrow> key \<in> set (map asc [''class'', ''rel'', ''rev'', ''accesskey'', ''dropzone''])"

fun matches_simple :: "node \<Rightarrow> simple_selector \<Rightarrow> bool" where
  "matches_simple t (Type_sel nm) = (tag_name t = nm)"
| "matches_simple t (Class_sel c) =
     (case get_attr t (asc ''class'') of None \<Rightarrow> False | Some v \<Rightarrow> c \<in> set (words v))"
| "matches_simple t (Attr_sel key) = (get_attr t key \<noteq> None)"
| "matches_simple t (Attr_eq_sel key v) =
     (case get_attr t key of
        None \<Rightarrow> False
      | Some w \<Rightarrow> (if list_valued key then join (asc '' '') (words w) else w) = v)"

definition matches_compound :: "node \<Rightarrow> simple_selector list \<Rightarrow> bool" where
  "matches_compound t c \<longleftrightarrow> is_tag t \<and> list_all (matches_simple t) c"

fun matches_ancestors :: "simple_selector list list \<Rightarrow> node list \<Rightarrow> bool" where
  "matches_ancestors [] anc = True"
| "matches_ancestors (c # cs) [] = False"
| "matches_ancestors (c # cs) (a # anc) =
     (if matches_compound a c then matches_ancestors cs anc
      else matches_ancestors (c # cs) anc)"

definition matches :: "selector \<Rightarrow> node \<times> node list \<Rightarrow> bool" where
  "matches sel p =
     (case rev sel of
        [] \<Rightarrow> False
      | c # cs \<Rightarrow> matches_compound (fst p) c \<and> matches_ancestors cs (snd p))"

definition select :: "node \<Rightarrow> selector \<Rightarrow> node list" where
  "select n sel = map fst (filter (matches sel) (below [] n))"

definition select_one :: "node \<Rightarrow> selector \<Rightarrow> node option" where
  "select_one n sel = (case select n sel of [] \<Rightarrow> None | t # ts \<Rightarrow> Some t)"

section \<open>Fetching\<close>

text \<open>
  What \<open>session.get\<close> does is the environment: it either returns a response with a status
  code and a body, or raises a \<open>RequestException\<close>. The same URL may answer differently
  at different times, so the environment maps the number of requests made so far and the
  URL requested to the outcome. Console output and the pauses between requests are left out.
\<close>

datatype http_outcome = Response int pystr | RequestException

type_synonym network = "nat \<Rightarrow> pystr \<Rightarrow> http_outcome"

definition fetch_html :: "network \<Rightarrow> nat \<Rightarrow> pystr \<Rightarrow> pystr option" where
  "fetch_html session k url =
     (case session k url of
        Response status_code body \<Rightarrow> if status_code = 200 then Some body else None
      | RequestException \<Rightarrow> None)"

text \<open>The successful class of HTTP status codes (2xx), for comparison with \<open>fetch_html\<close>.\<close>

definition http_success_status :: "int \<Rightarrow> bool" where
  "http_success_status status_code \<longleftrightarrow> 200 \<le> status_code \<and> status_code < 300"

section \<open>Listing pages\<close>

datatype error =
    Failed_to_fetch_listing_page pystr
  | No_detail_URLs_found
  | Parser_exception
  | Urljoin_ValueError

text \<open>
  \<open>urllib.parse.urljoin\<close> is a parameter. It raises \<open>ValueError\<close> on some
  references (a bracket of an IPv6 host that is not closed, for one): the result is then
  \<open>None\<close>. Nothing catches that exception where the listing pages are read, so it ends
  the run.
\<close>

type_synonym url_join = "pystr \<Rightarrow> pystr \<Rightarrow> pystr option"

definition detail_href :: "pystr \<Rightarrow> bool" where
  "detail_href href \<longleftrightarrow>
     \<not> (\<not> str_in (asc ''/jj/bukken/'') href \<and> \<not> str_in (asc ''/ms/'') href
        \<and> \<not> str_in (asc ''/bukken/'') href)"

text \<open>The loop of \<open>extract_detail_urls\<close> over the anchors, with its list and its set.\<close>

fun detail_urls_loop ::
  "url_join \<Rightarrow> pystr \<Rightarrow> node list \<Rightarrow> pystr list \<times> pystr set
     \<Rightarrow> error + pystr list \<times> pystr set" where
  "detail_urls_loop urljoin base_url [] (urls, seen) = Inr (urls, seen)"
| "detail_urls_loop urljoin base_url (anchor # rest) (urls, seen) =
     (let href = get_attr anchor (asc ''href'') in
      if \<not> truthy href then detail_urls_loop urljoin base_url rest (urls, seen)
      else if \<not> detail_href (the href) then detail_urls_loop urljoin base_url rest (urls, seen)
      else
        case urljoin base_url (the href) of
          None \<Rightarrow> Inl Urljoin_ValueError
        | Some full_url \<Rightarrow>
            if full_url \<in> seen then detail_urls_loop urljoin base_url rest (urls, seen)
            else detail_urls_loop urljoin base_url rest (urls @ [full_url], insert full_url seen))"

definition extract_detail_urls ::
  "html_parser \<Rightarrow> url_join \<Rightarrow> pystr \<Rightarrow> pystr \<Rightarrow> error + pystr list" where
  "extract_detail_urls parser urljoin listing_html base_url =
     (case parser listing_html of
        None \<Rightarrow> Inl Parser_exception
      | Some soup \<Rightarrow>
          (case detail_urls_loop urljoin base_url
                  (select soup [[Type_sel (asc ''a''), Attr_sel (asc ''href'')]]) ([], {}) of
             Inl e \<Rightarrow> Inl e
           | Inr r \<Rightarrow> Inr (fst r)))"

definition next_labels :: "pystr set" where
  "next_labels = {tsugi_e, tsugi_no_30_ken, tsugi_no_peji}"

fun first_next_anchor :: "node list \<Rightarrow> node option" where
  "first_next_anchor [] = None"
| "first_next_anchor (anchor # rest) =
     (if normalize_text (get_text anchor) \<in> next_labels then Some anchor
      else first_next_anchor rest)"

definition extract_next_page_url ::
  "html_parser \<Rightarrow> url_join \<Rightarrow> pystr \<Rightarrow> pystr \<Rightarrow> error + pystr option" where
  "extract_next_page_url parser urljoin listing_html base_url =
     (case parser listing_html of
        None \<Rightarrow> Inl Parser_exception
      | Some soup \<Rightarrow>
          (let next_link =
                 (case select_one soup [[Type_sel (asc ''a''), Attr_eq_sel (asc ''rel'') (asc ''next'')]] of
                    None \<Rightarrow> first_next_anchor (find_all soup (asc ''a''))
                  | Some t \<Rightarrow> Some t)
           in case next_link of
                None \<Rightarrow> Inr None
              | Some t \<Rightarrow>
                  (let href = get_attr t (asc ''href'') in
                   if \<not> truthy href then Inr None
                   else case urljoin base_url (the href) of
                          None \<Rightarrow> Inl Urljoin_ValueError
                        | Some next_url \<Rightarrow> Inr (Some next_url))))"

section \<open>Detail pages\<close>

type_synonym pair = "pystr \<times> pystr"

fun dl_items :: "(node \<times> node) list \<Rightarrow> pair list" where
  "dl_items [] = []"
| "dl_items ((dt, dd) # rest) =
     (let label = normalize_text (get_text_strip dt);
          value = normalize_text (get_text_strip dd)
      in (if label \<noteq> [] \<and> value \<noteq> [] then [(label, value)] else []) @ dl_items rest)"

fun dl_loop :: "node list \<Rightarrow> pair list" where
  "dl_loop [] = []"
| "dl_loop (dl # rest) =
     (let dts = find_all dl (asc ''dt'');
          dds = find_all dl (asc ''dd'')
      in (if length dts \<noteq> length dds then [] else dl_items (zip dts dds)) @ dl_loop rest)"

text \<open>One table row: \<open>row.find("th")\<close> and \<open>row.find("td")\<close> are the first such cells.\<close>

definition row_pairs :: "node \<Rightarrow> pair list" where
  "row_pairs row =
     (case (find_tag row (asc ''th''), find_tag row (asc ''td'')) of
        (Some th, Some td) \<Rightarrow>
          (let label = normalize_text (get_text_strip th);
               value = normalize_text (get_text_strip td)
           in if label \<noteq> [] \<and> value \<noteq> [] then [(label, value)] else [])
      | _ \<Rightarrow> [])"

fun rows_loop :: "node list \<Rightarrow> pair list" where
  "rows_loop [] = []"
| "rows_loop (row # rest) = row_pairs row @ rows_loop rest"

fun table_loop :: "node list \<Rightarrow> pair list" where
  "table_loop [] = []"
| "table_loop (table # rest) =
     rows_loop (select table [[Type_sel (asc ''tr'')]]) @ table_loop rest"

definition extract_pairs :: "node \<Rightarrow> pair list" where
  "extract_pairs soup =
     dl_loop (select soup [[Type_sel (asc ''dl'')]])
     @ table_loop (select soup [[Type_sel (asc ''table'')]])"

fun pick_first_text :: "node \<Rightarrow> selector list \<Rightarrow> pystr option" where
  "pick_first_text soup [] = None"
| "pick_first_text soup (sel # rest) =
     (case select_one soup sel of
        None \<Rightarrow> pick_first_text soup rest
      | Some n \<Rightarrow>
          (let text = normalize_text (get_text_strip n)
           in if text \<noteq> [] then Some text else pick_first_text soup rest))"

text \<open>
  A row is the \<open>OrderedDict\<close> of the source: its keys in insertion order, each with an
  optional string. \<open>data[key] = value\<close> is \<open>AList.update\<close>: it replaces the value of a
  key that is present and appends a key that is not.
\<close>

type_synonym row = "(pystr \<times> pystr option) list"

definition empty_row :: "pystr \<Rightarrow> row" where
  "empty_row url = AList.update url_key (Some url) (map (\<lambda>col. (col, None)) COLUMNS)"

text \<open>The scan of \<open>LABEL_MAP.items()\<close> for one label, up to its \<open>break\<close>.\<close>

fun map_label :: "(pystr \<times> pystr) list \<Rightarrow> pystr \<Rightarrow> pystr \<Rightarrow> row \<Rightarrow> row" where
  "map_label [] normalized_label v data = data"
| "map_label ((key, mapped) # rest) normalized_label v data =
     (if str_in key normalized_label then AList.update mapped (Some v) data
      else map_label rest normalized_label v data)"

record scan =
  data :: row
  floor_value :: "pystr option"
  total_floors :: "pystr option"
  management_parts :: "pystr list"

definition scan_pair :: "scan \<Rightarrow> pair \<Rightarrow> scan" where
  "scan_pair s p =
     (let normalized_label = normalize_text (fst p); v = snd p in
      if normalized_label = shozaikai \<or> normalized_label = kaisu then
        (if normalized_label = shozaikai then s\<lparr>floor_value := Some v\<rparr>
         else s\<lparr>total_floors := Some v\<rparr>)
      else if normalized_label = kanri_keitai \<or> normalized_label = kanri_gaisha then
        s\<lparr>management_parts := management_parts s @ [v]\<rparr>
      else s\<lparr>data := map_label LABEL_MAP normalized_label v (data s)\<rparr>)"

fun scan_pairs :: "scan \<Rightarrow> pair list \<Rightarrow> scan" where
  "scan_pairs s [] = s"
| "scan_pairs s (p # ps) = scan_pairs (scan_pair s p) ps"

text \<open>\<open>OrderedDict.fromkeys(parts)\<close>: every part is stored as a key, in turn.\<close>

fun fromkeys :: "pystr list \<Rightarrow> (pystr \<times> unit) list \<Rightarrow> (pystr \<times> unit) list" where
  "fromkeys [] d = d"
| "fromkeys (k # ks) d = fromkeys ks (AList.update k () d)"

definition name_selectors :: "selector list" where
  "name_selectors =
     [[[Type_sel (asc ''h1'')]],
      [[Class_sel (asc ''property_view'')], [Type_sel (asc ''h1'')]],
      [[Class_sel (asc ''section_h1-title'')]],
      [[Class_sel (asc ''suumo_h1'')]]]"

definition price_selectors :: "selector list" where
  "price_selectors =
     [[[Class_sel (asc ''property_view'')], [Class_sel (asc ''price'')]],
      [[Class_sel (asc ''price'')]],
      [[Class_sel (asc ''bukkenTitle'')]],
      [[Class_sel (asc ''property_view'')], [Type_sel (asc ''b'')]]]"

definition finish :: "scan \<Rightarrow> row" where
  "finish s =
     (let data1 =
            (if truthy (floor_value s) \<or> truthy (total_floors s) then
               AList.update kaisu_shozaikai
                 (Some (join sep_slash
                    (map the (filter truthy [floor_value s, total_floors s])))) (data s)
             else data s)
      in if management_parts s \<noteq> [] then
           AList.update kanri_col
             (Some (join sep_slash (map fst (fromkeys (management_parts s) [])))) data1
         else data1)"

definition parse_soup :: "node \<Rightarrow> pystr \<Rightarrow> row" where
  "parse_soup soup url =
     (let data0 = empty_row url;
          name = pick_first_text soup name_selectors;
          price = pick_first_text soup price_selectors;
          data1 = (if truthy name then AList.update bukkenmei name data0 else data0);
          data2 = (if truthy price then AList.update kakaku price data1 else data1)
      in finish (scan_pairs
           \<lparr>data = data2, floor_value = None, total_floors = None, management_parts = []\<rparr>
           (extract_pairs soup)))"

definition parse_detail_page :: "html_parser \<Rightarrow> pystr \<Rightarrow> pystr \<Rightarrow> error + row" where
  "parse_detail_page parser html url =
     (case parser html of
        None \<Rightarrow> Inl Parser_exception
      | Some soup \<Rightarrow> Inr (parse_soup soup url))"


section \<open>The crawl\<close>

text \<open>
  The state of the listing walk: the URLs requested so far (so that the next request is
  number \<open>length (requested w)\<close>), the detail URLs collected and the set of those seen.
\<close>

record walk =
  requested :: "pystr list"
  detail_urls :: "pystr list"
  seen_detail_urls :: "pystr set"

fun collect :: "pystr list \<Rightarrow> pystr list \<times> pystr set \<Rightarrow> pystr list \<times> pystr set" where
  "collect [] (urls, seen) = (urls, seen)"
| "collect (url # rest) (urls, seen) =
     (if url \<notin> seen then collect rest (urls @ [url], insert url seen)
      else collect rest (urls, seen))"

text \<open>
  The \<open>while page_url\<close> loop of \<open>scrape_suumo\<close>. It need not end (the pages may link in a
  circle or go on for ever), so the result is optional: \<open>None\<close> is a walk that never
  returns.
\<close>

partial_function (option) listing_walk ::
  "html_parser \<Rightarrow> url_join \<Rightarrow> network \<Rightarrow> pystr option \<Rightarrow> walk \<Rightarrow> (error + walk) option" where
  "listing_walk parser urljoin session page_url w =
     (if \<not> truthy page_url then Some (Inr w)
      else
        let url = the page_url;
            listing_html = fetch_html session (length (requested w)) url;
            w1 = w\<lparr>requested := requested w @ [url]\<rparr>
        in if \<not> truthy listing_html then Some (Inl (Failed_to_fetch_listing_page url))
           else
             case extract_detail_urls parser urljoin (the listing_html) url of
               Inl e \<Rightarrow> Some (Inl e)
             | Inr page_detail_urls \<Rightarrow>
                 (let c = collect page_detail_urls (detail_urls w1, seen_detail_urls w1);
                      w2 = w1\<lparr>detail_urls := fst c, seen_detail_urls := snd c\<rparr>
                  in case extract_next_page_url parser urljoin (the listing_html) url of
                       Inl e \<Rightarrow> Some (Inl e)
                     | Inr next_url \<Rightarrow> listing_walk parser urljoin session next_url w2))"

declare listing_walk.simps [code]

text \<open>The loop over the detail URLs; \<open>k\<close> is the number of requests made before it.\<close>

fun detail_records :: "html_parser \<Rightarrow> network \<Rightarrow> nat \<Rightarrow> pystr list \<Rightarrow> row list" where
  "detail_records parser session k [] = []"
| "detail_records parser session k (detail_url # rest) =
     (let html = fetch_html session k detail_url;
          record =
            (if \<not> truthy html then empty_row detail_url
             else case parse_detail_page parser (the html) detail_url of
                    Inl e \<Rightarrow> empty_row detail_url
                  | Inr r \<Rightarrow> r)
      in record # detail_records parser session (Suc k) rest)"

definition scrape_suumo ::
  "html_parser \<Rightarrow> url_join \<Rightarrow> network \<Rightarrow> pystr \<Rightarrow> (error + row list) option" where
  "scrape_suumo parser urljoin session listing_url =
     (case listing_walk parser urljoin session (Some listing_url)
             \<lparr>requested = [], detail_urls = [], seen_detail_urls = {}\<rparr> of
        None \<Rightarrow> None
      | Some (Inl e) \<Rightarrow> Some (Inl e)
      | Some (Inr w) \<Rightarrow>
          if detail_urls w = [] then Some (Inl No_detail_URLs_found)
          else Some (Inr (detail_records parser session (length (requested w)) (detail_urls w))))"

section \<open>Notions used in the properties\<close>

text \<open>The elements of a list at their first occurrence, in that order.\<close>

definition firsts :: "'a list \<Rightarrow> 'a list" where
  "firsts xs = rev (remdups (rev xs))"

text \<open>
  The field that the scan of the synonym table assigns for a normalized label: none for
  the four labels that are held aside or accumulated, and none when the label contains
  no key of the table.
\<close>

definition synonym_field :: "pystr \<Rightarrow> pystr option" where
  "synonym_field normalized_label =
     (if normalized_label \<in> {shozaikai, kaisu, kanri_keitai, kanri_gaisha} then None
      else map_option snd (find (\<lambda>p. str_in (fst p) normalized_label) LABEL_MAP))"

text \<open>The value of the last pair whose normalized label is \<open>l\<close>.\<close>

fun last_value :: "pystr \<Rightarrow> pair list \<Rightarrow> pystr option" where
  "last_value l [] = None"
| "last_value l (p # ps) =
     (case last_value l ps of
        Some v \<Rightarrow> Some v
      | None \<Rightarrow> if normalize_text (fst p) = l then Some (snd p) else None)"

text \<open>The values of the pairs labelled as management form or management company.\<close>

definition management_values :: "pair list \<Rightarrow> pystr list" where
  "management_values ps =
     map snd (filter (\<lambda>p. normalize_text (fst p) \<in> {kanri_keitai, kanri_gaisha}) ps)"

text \<open>
  A run of listing pages, each given by its URL and its body: from request number \<open>k\<close>
  on, every page is fetched with a non-empty body from which the detail URLs are
  extracted without an exception (the parser accepts the body and \<open>urljoin\<close> accepts
  each detail link), and the next link of each page but the last leads to the page after it.
\<close>

fun page_run ::
  "html_parser \<Rightarrow> url_join \<Rightarrow> network \<Rightarrow> nat \<Rightarrow> (pystr \<times> pystr) list \<Rightarrow> bool" where
  "page_run parser urljoin session k [] = True"
| "page_run parser urljoin session k ((url, html) # rest) =
     (url \<noteq> [] \<and> fetch_html session k url = Some html \<and> html \<noteq> [] \<and>
      (case extract_detail_urls parser urljoin html url of Inl e \<Rightarrow> False | Inr urls \<Rightarrow> True) \<and>
      (case rest of
         [] \<Rightarrow> True
       | next_page # _ \<Rightarrow>
           extract_next_page_url parser urljoin html url = Inr (Some (fst next_page))) \<and>
      page_run parser urljoin session (Suc k) rest)"

definition page_detail_urls :: "html_parser \<Rightarrow> url_join \<Rightarrow> pystr \<times> pystr \<Rightarrow> pystr list" where
  "page_detail_urls parser urljoin page =
     (case extract_detail_urls parser urljoin (snd page) (fst page) of
        Inl e \<Rightarrow> []
      | Inr urls \<Rightarrow> urls)"

section \<open>Example pages\<close>

text \<open>
  Small pages on which the properties are evaluated. A page is given by its body and by
  the tree the parser builds from it, and \<open>known_pages\<close> is a parser that knows the
  listed bodies and raises on every other. \<open>site\<close> is a network that answers each URL
  from a table, whatever the time, and fails for any other URL.
\<close>

abbreviation str :: "pystr \<Rightarrow> node" where
  "str s \<equiv> NavigableString s"

abbreviation el :: "string \<Rightarrow> node list \<Rightarrow> node" where
  "el nm cs \<equiv> Tag (asc nm) [] cs"

abbreviation root :: "node list \<Rightarrow> node" where
  "root cs \<equiv> Tag (asc ''[root]'') [] cs"

abbreviation link :: "string \<Rightarrow> string \<Rightarrow> node" where
  "link href s \<equiv> Tag (asc ''a'') [(asc ''href'', asc href)] [str (asc s)]"

definition known_pages :: "(pystr \<times> node) list \<Rightarrow> html_parser" where
  "known_pages pages html = map_of pages html"

definition site :: "(pystr \<times> http_outcome) list \<Rightarrow> network" where
  "site answers k url = (case map_of answers url of None \<Rightarrow> RequestException | Some r \<Rightarrow> r)"

definition malformed_href :: pystr where
  \<comment> \<open>a reference whose IPv6 host bracket is not closed: \<open>urljoin\<close> raises \<open>ValueError\<close>\<close>
  "malformed_href = asc ''http://[::1/ms/2''"

definition host_join :: url_join where
  \<comment> \<open>\<open>urljoin\<close> for a base on \<open>https://suumo.jp\<close> and a reference that starts with
     one \<open>/\<close>, or the malformed reference\<close>
  "host_join base_url href =
     (if href = malformed_href then None else Some (asc ''https://suumo.jp'' @ href))"

text \<open>A table with one row per pair, and its body.\<close>

definition table_of :: "pair list \<Rightarrow> node" where
  "table_of ps = root [el ''table'' (map (\<lambda>p. el ''tr'' [el ''th'' [str (fst p)], el ''td'' [str (snd p)]]) ps)]"

definition table_html :: "pair list \<Rightarrow> pystr" where
  "table_html ps =
     asc ''<table>''
     @ concat (map (\<lambda>p. asc ''<tr><th>'' @ fst p @ asc ''</th><td>'' @ snd p @ asc ''</td></tr>'') ps)
     @ asc ''</table>''"

definition san_kai :: pystr where
  \<comment> \<open>3 U+968E: third floor\<close>
  "san_kai = [0x33, 0x968E]"

definition ju_kai_date :: pystr where
  \<comment> \<open>1 0 U+968E U+5EFA: ten storeys\<close>
  "ju_kai_date = [0x31, 0x30, 0x968E, 0x5EFA]"

definition a_sha :: pystr where
  \<comment> \<open>A U+793E: company A\<close>
  "a_sha = [0x41, 0x793E]"

definition b_sha :: pystr where
  \<comment> \<open>B U+793E: company B\<close>
  "b_sha = [0x42, 0x793E]"

definition kanri_gaisha_mei :: pystr where
  \<comment> \<open>U+7BA1 U+7406 U+4F1A U+793E U+540D: name of the management company\<close>
  "kanri_gaisha_mei = [0x7BA1, 0x7406, 0x4F1A, 0x793E, 0x540D]"

definition shozaikaisu :: pystr where
  \<comment> \<open>U+6240 U+5728 U+968E U+6570: a label that contains both floor labels\<close>
  "shozaikaisu = [0x6240, 0x5728, 0x968E, 0x6570]"

definition floors_soup :: node where
  \<comment> \<open>a description list with the floor of the unit and the number of floors\<close>
  "floors_soup =
     root [el ''dl'' [el ''dt'' [str shozaikai], el ''dd'' [str san_kai],
                          el ''dt'' [str kaisu], el ''dd'' [str ju_kai_date]]]"

definition floors_html :: pystr where
  "floors_html =
     asc ''<dl><dt>'' @ shozaikai @ asc ''</dt><dd>'' @ san_kai @ asc ''</dd><dt>'' @ kaisu
     @ asc ''</dt><dd>'' @ ju_kai_date @ asc ''</dd></dl>''"

definition management_rows :: "pair list" where
  "management_rows = [(kanri_gaisha, a_sha), (kanri_keitai, a_sha), (kanri_gaisha, b_sha)]"

definition price_rows :: "pair list" where
  "price_rows = [(kakaku, asc ''1''), (hanbai_kakaku, asc ''2'')]"

definition company_rows :: "pair list" where
  "company_rows = [(kanri_gaisha, asc ''Z''), (kanri_gaisha_mei, asc ''X''), (kanri_gaisha_mei, asc ''Y'')]"

definition named_company_rows :: "pair list" where
  "named_company_rows = [(kanri_gaisha_mei, a_sha), (kanri_keitai, b_sha)]"

definition floor_count_rows :: "pair list" where
  "floor_count_rows = [(shozaikaisu, asc ''3'')]"

definition two_label_row :: node where
  \<comment> \<open>a table row with two label cells and one value cell\<close>
  "two_label_row = el ''tr'' [el ''th'' [str (asc ''A'')], el ''th'' [str (asc ''B'')], el ''td'' [str (asc ''C'')]]"

definition two_label_page :: node where
  "two_label_page = root [el ''table'' [two_label_row]]"

definition no_label_row :: node where
  \<comment> \<open>a table row with two value cells and no label cell\<close>
  "no_label_row = el ''tr'' [el ''td'' [str (asc ''A'')], el ''td'' [str (asc ''B'')]]"

definition detail_url :: pystr where
  "detail_url = asc ''https://suumo.jp/ms/1''"

definition tatemono_kozo_muki :: pystr where
  \<comment> \<open>U+5EFA U+7269 U+69CB U+9020 U+30FB U+5411 U+304D: building structure and orientation\<close>
  "tatemono_kozo_muki = [0x5EFA, 0x7269, 0x69CB, 0x9020, 0x30FB, 0x5411, 0x304D]"

definition structure_rows :: "pair list" where
  "structure_rows = [(tatemono_kozo_muki, asc ''RC'')]"

text \<open>
  A site with two listing pages and three detail pages. The first listing page links to
  two detail pages and to the second listing page; the second links to one of the same
  detail pages and to one more. The first detail page answers with a table, the second
  with status 404, the third with a body the parser rejects.
\<close>

definition listing_url :: pystr where
  "listing_url = asc ''https://suumo.jp/list''"

definition listing_url2 :: pystr where
  "listing_url2 = asc ''https://suumo.jp/list2''"

definition detail_url2 :: pystr where
  "detail_url2 = asc ''https://suumo.jp/ms/2''"

definition detail_url3 :: pystr where
  "detail_url3 = asc ''https://suumo.jp/ms/3''"

definition page1_html :: pystr where
  "page1_html = asc ''<a href=/ms/1>A</a><a href=/ms/2>B</a><a rel=next href=/list2>next</a>''"

definition page1_soup :: node where
  "page1_soup =
     root [link ''/ms/1'' ''A'', link ''/ms/2'' ''B'',
           Tag (asc ''a'') [(asc ''rel'', asc ''next''), (asc ''href'', asc ''/list2'')]
             [str (asc ''next'')]]"

definition page2_html :: pystr where
  "page2_html = asc ''<a href=/ms/2>B</a><a href=/ms/3>C</a>''"

definition page2_soup :: node where
  "page2_soup = root [link ''/ms/2'' ''B'', link ''/ms/3'' ''C'']"

definition rejected_html :: pystr where
  "rejected_html = asc ''<![x''"

definition crawl_parser :: html_parser where
  "crawl_parser =
     known_pages [(page1_html, page1_soup), (page2_html, page2_soup),
                  (table_html price_rows, table_of price_rows)]"

definition crawl_site :: network where
  "crawl_site =
     site [(listing_url, Response 200 page1_html), (listing_url2, Response 200 page2_html),
           (detail_url, Response 200 (table_html price_rows)),
           (detail_url2, Response 404 []),
           (detail_url3, Response 200 rejected_html)]"

text \<open>A one-page site whose listing page has a detail link that \<open>urljoin\<close> rejects.\<close>

definition malformed_html :: pystr where
  "malformed_html = asc ''<a href=/ms/1>A</a><a href=http://[::1/ms/2>B</a>''"

definition malformed_soup :: node where
  "malformed_soup = root [link ''/ms/1'' ''A'', link ''http://[::1/ms/2'' ''B'']"

definition malformed_site :: network where
  "malformed_site = site [(listing_url, Response 200 malformed_html)]"

definition broken_site :: network where
  \<comment> \<open>the same site when its second listing page answers with status 500\<close>
  "broken_site =
     site [(listing_url, Response 200 page1_html), (listing_url2, Response 500 []),
           (detail_url, Response 200 (table_html price_rows))]"

section \<open>Properties\<close>

lemmas label_defs =
  bukkenmei_def kakaku_def shozaichi_def kotsu_def madori_def
  senyu_menseki_def barukoni_menseki_def chikunensu_col_def kaisu_shozaikai_def muki_def
  kanrihi_def shuzen_tsumitatekin_def sonota_hiyo_def hikiwatashi_jiki_def torihiki_taiyo_def
  joho_koshinbi_def jikai_koshin_col_def tatemono_kozo_col_def sokosu_def chushajo_def
  yoto_chiiki_def tochi_kenri_def kanri_col_def rifomu_col_def hanbai_kakaku_def
  barukoni_def chikunensu_def chikunengetsu_def hikiwatashi_def hikiwatashi_shi_def
  jikai_koshinbi_def jikai_koshin_yoteibi_def kozo_def tatemono_kozo_def kanri_keitai_def
  kanri_gaisha_def rifomu_def rinobeshon_def shozaikai_def kaisu_def
  tsugi_e_def tsugi_no_30_ken_def tsugi_no_peji_def

lemmas const_defs = label_defs asc_def url_key_def sep_slash_def

subsection \<open>Facts about the tables\<close>

lemma label_map_fields:
  "list_all (\<lambda>p. snd p \<in> set COLUMNS \<and> snd p \<noteq> url_key \<and> snd p \<noteq> kaisu_shozaikai) LABEL_MAP"
  by (simp add: LABEL_MAP_def COLUMNS_def const_defs)

lemma mapped_field:
  assumes "p \<in> set LABEL_MAP"
  shows "snd p \<in> set COLUMNS" and "snd p \<noteq> url_key" and "snd p \<noteq> kaisu_shozaikai"
  using assms label_map_fields by (auto simp: list_all_iff)

lemma fixed_keys:
  "url_key \<in> set COLUMNS" "bukkenmei \<in> set COLUMNS" "kakaku \<in> set COLUMNS"
  "kaisu_shozaikai \<in> set COLUMNS" "kanri_col \<in> set COLUMNS"
  by (simp_all add: COLUMNS_def const_defs)

lemma fixed_keys_distinct:
  "bukkenmei \<noteq> url_key" "kakaku \<noteq> url_key" "kaisu_shozaikai \<noteq> url_key" "kanri_col \<noteq> url_key"
  "kaisu_shozaikai \<noteq> kanri_col" "bukkenmei \<noteq> kaisu_shozaikai" "kakaku \<noteq> kaisu_shozaikai"
  "bukkenmei \<noteq> kanri_col" "kakaku \<noteq> kanri_col"
  by (simp_all add: const_defs)

lemma special_keys:
  "filter (\<lambda>p. str_in (fst p) shozaikai) LABEL_MAP = []"
  "filter (\<lambda>p. str_in (fst p) kaisu) LABEL_MAP = []"
  "filter (\<lambda>p. str_in (fst p) kanri_keitai) LABEL_MAP = [(kanri_keitai, kanri_col)]"
  "filter (\<lambda>p. str_in (fst p) kanri_gaisha) LABEL_MAP = [(kanri_gaisha, kanri_col)]"
  by (simp_all add: LABEL_MAP_def const_defs)

lemma special_distinct:
  "shozaikai \<noteq> kaisu" "shozaikai \<noteq> kanri_keitai" "shozaikai \<noteq> kanri_gaisha"
  "kaisu \<noteq> kanri_keitai" "kaisu \<noteq> kanri_gaisha" "kanri_keitai \<noteq> kanri_gaisha"
  by (simp_all add: const_defs)

lemma keys_in_special:
  assumes "p \<in> set LABEL_MAP" and "str_in (fst p) l"
    and "l \<in> {shozaikai, kaisu, kanri_keitai, kanri_gaisha}"
  shows "l = fst p"
proof -
  have mem: "p \<in> set (filter (\<lambda>p. str_in (fst p) l) LABEL_MAP)"
    using assms(1,2) by simp
  from assms(3) consider "l = shozaikai" | "l = kaisu" | "l = kanri_keitai" | "l = kanri_gaisha"
    by auto
  then show ?thesis
  proof cases
    case 1
    with mem show ?thesis unfolding 1 special_keys by simp
  next
    case 2
    with mem show ?thesis unfolding 2 special_keys by simp
  next
    case 3
    with mem show ?thesis unfolding 3 special_keys by simp
  next
    case 4
    with mem show ?thesis unfolding 4 special_keys by simp
  qed
qed

subsection \<open>The scan of the synonym table\<close>

lemma map_label_find:
  "map_label T l v d =
     (case find (\<lambda>p. str_in (fst p) l) T of
        None \<Rightarrow> d
      | Some p \<Rightarrow> AList.update (snd p) (Some v) d)"
  by (induction T l v d rule: map_label.induct) simp_all

lemma scan_pair_plain:
  assumes "normalize_text l \<notin> {shozaikai, kaisu, kanri_keitai, kanri_gaisha}"
  shows "scan_pair s (l, v) = s\<lparr>data := map_label LABEL_MAP (normalize_text l) v (data s)\<rparr>"
  using assms by (simp add: scan_pair_def)

lemma scan_pair_synonym:
  assumes "synonym_field (normalize_text l) = Some f"
  shows "scan_pair s (l, v) = s\<lparr>data := AList.update f (Some v) (data s)\<rparr>"
proof -
  from assms have plain: "normalize_text l \<notin> {shozaikai, kaisu, kanri_keitai, kanri_gaisha}"
    by (auto simp: synonym_field_def split: if_splits)
  with assms obtain p where "find (\<lambda>p. str_in (fst p) (normalize_text l)) LABEL_MAP = Some p"
    and "snd p = f"
    by (auto simp: synonym_field_def split: if_splits)
  then show ?thesis
    by (simp add: scan_pair_plain [OF plain] map_label_find)
qed

lemma synonym_field_range:
  assumes "synonym_field l = Some f"
  shows "f \<in> set COLUMNS" and "f \<noteq> url_key" and "f \<noteq> kaisu_shozaikai"
proof -
  from assms obtain p where "find (\<lambda>p. str_in (fst p) l) LABEL_MAP = Some p" and f: "snd p = f"
    by (auto simp: synonym_field_def split: if_splits)
  then have "p \<in> set LABEL_MAP"
    by (auto simp: find_Some_iff)
  then show "f \<in> set COLUMNS" and "f \<noteq> url_key" and "f \<noteq> kaisu_shozaikai"
    using mapped_field [of p] f by auto
qed

lemma scan_pair_field_other:
  assumes "synonym_field (normalize_text (fst p)) \<noteq> Some f"
  shows "map_of (data (scan_pair s p)) f = map_of (data s) f"
proof (cases "normalize_text (fst p) \<in> {shozaikai, kaisu, kanri_keitai, kanri_gaisha}")
  case True
  then show ?thesis
    by (auto simp: scan_pair_def Let_def)
next
  case False
  with assms have "map_option snd (find (\<lambda>q. str_in (fst q) (normalize_text (fst p))) LABEL_MAP) \<noteq> Some f"
    by (simp add: synonym_field_def)
  then show ?thesis
    using False scan_pair_plain [OF False, of s "snd p"]
    by (auto simp: map_label_find update_conv' split: option.splits)
qed

lemma scan_pairs_append: "scan_pairs s (ps @ qs) = scan_pairs (scan_pairs s ps) qs"
  by (induction ps arbitrary: s) simp_all

lemma scan_pairs_field_other:
  assumes "\<forall>p \<in> set ps. synonym_field (normalize_text (fst p)) \<noteq> Some f"
  shows "map_of (data (scan_pairs s ps)) f = map_of (data s) f"
  using assms by (induction ps arbitrary: s) (simp_all add: scan_pair_field_other)

lemma scan_pairs_floor_field:
  "map_of (data (scan_pairs s ps)) kaisu_shozaikai = map_of (data s) kaisu_shozaikai"
  by (rule scan_pairs_field_other) (auto dest: synonym_field_range(3))

lemma scan_pairs_url_field:
  "map_of (data (scan_pairs s ps)) url_key = map_of (data s) url_key"
  by (rule scan_pairs_field_other) (auto dest: synonym_field_range(2))

subsection \<open>What the scan holds aside\<close>

lemma scan_pair_floor_value:
  "floor_value (scan_pair s p) =
     (if normalize_text (fst p) = shozaikai then Some (snd p) else floor_value s)"
  by (simp add: scan_pair_def Let_def special_distinct)

lemma scan_pair_total_floors:
  "total_floors (scan_pair s p) =
     (if normalize_text (fst p) = kaisu then Some (snd p) else total_floors s)"
  by (simp add: scan_pair_def Let_def special_distinct)

lemma scan_pair_management_parts:
  "management_parts (scan_pair s p) =
     (if normalize_text (fst p) \<in> {kanri_keitai, kanri_gaisha} then management_parts s @ [snd p]
      else management_parts s)"
  using special_distinct by (auto simp: scan_pair_def Let_def)

lemma scan_pairs_floor_value:
  "floor_value (scan_pairs s ps) =
     (case last_value shozaikai ps of None \<Rightarrow> floor_value s | Some v \<Rightarrow> Some v)"
  by (induction ps arbitrary: s) (simp_all add: scan_pair_floor_value split: option.splits)

lemma scan_pairs_total_floors:
  "total_floors (scan_pairs s ps) =
     (case last_value kaisu ps of None \<Rightarrow> total_floors s | Some v \<Rightarrow> Some v)"
  by (induction ps arbitrary: s) (simp_all add: scan_pair_total_floors split: option.splits)

lemma scan_pairs_management_parts:
  "management_parts (scan_pairs s ps) = management_parts s @ management_values ps"
  by (induction ps arbitrary: s) (simp_all add: scan_pair_management_parts management_values_def)

subsection \<open>Rows\<close>

lemma map_of_null_columns:
  "map_of (map (\<lambda>col. (col, None)) cols) f = (if f \<in> set cols then Some None else None)"
  by (induction cols) simp_all

lemma empty_row_keys: "map fst (empty_row url) = COLUMNS"
  by (simp add: empty_row_def update_keys fixed_keys comp_def)

lemma empty_row_url: "map_of (empty_row url) url_key = Some (Some url)"
  by (simp add: empty_row_def update_conv')

lemma empty_row_other:
  "f \<noteq> url_key \<Longrightarrow> map_of (empty_row url) f = (if f \<in> set COLUMNS then Some None else None)"
  by (simp add: empty_row_def update_conv' map_of_null_columns)

lemma update_column_keys:
  "map fst d = COLUMNS \<Longrightarrow> f \<in> set COLUMNS \<Longrightarrow> map fst (AList.update f v d) = COLUMNS"
  by (simp add: update_keys)

lemma scan_pair_keys:
  assumes "map fst (data s) = COLUMNS"
  shows "map fst (data (scan_pair s p)) = COLUMNS"
proof (cases "normalize_text (fst p) \<in> {shozaikai, kaisu, kanri_keitai, kanri_gaisha}")
  case True
  with assms show ?thesis
    by (auto simp: scan_pair_def Let_def)
next
  case False
  show ?thesis
  proof (cases "find (\<lambda>q. str_in (fst q) (normalize_text (fst p))) LABEL_MAP")
    case None
    with assms show ?thesis
      using scan_pair_plain [OF False, of s "snd p"] by (simp add: map_label_find)
  next
    case (Some q)
    then have "q \<in> set LABEL_MAP"
      by (auto simp: find_Some_iff)
    then have "snd q \<in> set COLUMNS"
      by (rule mapped_field(1))
    with assms Some show ?thesis
      using scan_pair_plain [OF False, of s "snd p"]
      by (simp add: map_label_find update_column_keys)
  qed
qed

lemma scan_pairs_keys:
  "map fst (data s) = COLUMNS \<Longrightarrow> map fst (data (scan_pairs s ps)) = COLUMNS"
  by (induction ps arbitrary: s) (simp_all add: scan_pair_keys)

lemma finish_keys:
  "map fst (data s) = COLUMNS \<Longrightarrow> map fst (finish s) = COLUMNS"
  by (simp add: finish_def Let_def update_column_keys fixed_keys)

lemma finish_field_other:
  assumes "f \<noteq> kaisu_shozaikai" and "f \<noteq> kanri_col \<or> management_parts s = []"
  shows "map_of (finish s) f = map_of (data s) f"
  using assms by (auto simp: finish_def Let_def update_conv')

lemma finish_management:
  assumes "management_parts s \<noteq> []"
  shows "map_of (finish s) kanri_col =
           Some (Some (join sep_slash (map fst (fromkeys (management_parts s) []))))"
  using assms by (simp add: finish_def Let_def update_conv')

lemma finish_floor:
  "map_of (finish s) kaisu_shozaikai =
     (if truthy (floor_value s) \<or> truthy (total_floors s)
      then Some (Some (join sep_slash (map the (filter truthy [floor_value s, total_floors s]))))
      else map_of (data s) kaisu_shozaikai)"
  by (simp add: finish_def Let_def update_conv' fixed_keys_distinct)

subsection \<open>The pairs of a page\<close>

lemma dl_items_nonempty: "p \<in> set (dl_items zs) \<Longrightarrow> fst p \<noteq> [] \<and> snd p \<noteq> []"
  by (induction zs rule: dl_items.induct) (auto simp: Let_def split: if_splits)

lemma dl_loop_nonempty: "p \<in> set (dl_loop dls) \<Longrightarrow> fst p \<noteq> [] \<and> snd p \<noteq> []"
  by (induction dls) (auto simp: Let_def dest: dl_items_nonempty split: if_splits)

lemma row_pairs_nonempty: "p \<in> set (row_pairs row) \<Longrightarrow> fst p \<noteq> [] \<and> snd p \<noteq> []"
  by (auto simp: row_pairs_def Let_def split: option.splits if_splits)

lemma rows_loop_nonempty: "p \<in> set (rows_loop rows) \<Longrightarrow> fst p \<noteq> [] \<and> snd p \<noteq> []"
  by (induction rows) (auto dest: row_pairs_nonempty)

lemma table_loop_nonempty: "p \<in> set (table_loop tables) \<Longrightarrow> fst p \<noteq> [] \<and> snd p \<noteq> []"
  by (induction tables) (auto dest: rows_loop_nonempty)

lemma extract_pairs_nonempty:
  "p \<in> set (extract_pairs soup) \<Longrightarrow> fst p \<noteq> [] \<and> snd p \<noteq> []"
  by (auto simp: extract_pairs_def dest: dl_loop_nonempty table_loop_nonempty)

lemma last_value_mem: "last_value l ps = Some v \<Longrightarrow> \<exists>p \<in> set ps. snd p = v"
  by (induction ps) (auto split: option.splits if_splits)

lemma rows_loop_concat: "rows_loop rows = concat (map row_pairs rows)"
  by (induction rows) simp_all

lemma table_loop_concat:
  "table_loop tables =
     concat (map (\<lambda>table. concat (map row_pairs (select table [[Type_sel (asc ''tr'')]]))) tables)"
  by (induction tables) (simp_all add: rows_loop_concat)

subsection \<open>First occurrences\<close>

lemma firsts_snoc: "firsts (xs @ [x]) = (if x \<in> set xs then firsts xs else firsts xs @ [x])"
  by (simp add: firsts_def)

lemma set_firsts: "set (firsts xs) = set xs"
  by (simp add: firsts_def)


lemma firsts_distinct: "distinct xs \<Longrightarrow> firsts xs = xs"
  by (simp add: firsts_def distinct_remdups_id)

lemma update_unit_keys:
  "AList.update k () (map (\<lambda>k. (k, ())) ys) =
     map (\<lambda>k. (k, ())) (if k \<in> set ys then ys else ys @ [k])"
  by (induction ys) auto

lemma fromkeys_from:
  "map fst (fromkeys ks (map (\<lambda>k. (k, ())) (firsts pre))) = firsts (pre @ ks)"
proof (induction ks arbitrary: pre)
  case Nil
  show ?case by (simp add: comp_def)
next
  case (Cons k ks)
  have "AList.update k () (map (\<lambda>k. (k, ())) (firsts pre)) = map (\<lambda>k. (k, ())) (firsts (pre @ [k]))"
    by (simp add: update_unit_keys firsts_snoc set_firsts)
  with Cons [of "pre @ [k]"] show ?case by simp
qed

lemma fromkeys_firsts: "map fst (fromkeys ks []) = firsts ks"
  using fromkeys_from [of ks "[]"] by (simp add: firsts_def)

lemma collect_from:
  "collect xs (firsts pre, set pre) = (firsts (pre @ xs), set (pre @ xs))"
proof (induction xs arbitrary: pre)
  case Nil
  show ?case by simp
next
  case (Cons x xs)
  have "collect (x # xs) (firsts pre, set pre) = collect xs (firsts (pre @ [x]), set (pre @ [x]))"
    by (auto simp: firsts_snoc insert_absorb)
  with Cons [of "pre @ [x]"] show ?case by simp
qed

lemmas example_defs = known_pages_def site_def host_join_def table_of_def table_html_def
  san_kai_def ju_kai_date_def a_sha_def b_sha_def kanri_gaisha_mei_def shozaikaisu_def
  floors_soup_def floors_html_def management_rows_def price_rows_def company_rows_def
  named_company_rows_def floor_count_rows_def two_label_row_def two_label_page_def
  no_label_row_def detail_url_def malformed_href_def tatemono_kozo_muki_def structure_rows_def

lemmas soup_defs = extract_pairs_def select_def select_one_def matches_def matches_compound_def
  find_all_def find_tag_def descendants_def get_text_strip_def get_text_def normalize_text_def
  strip_def is_space_def get_attr_def row_pairs_def Let_def

lemmas parse_defs = parse_soup_def finish_def scan_pair_def name_selectors_def
  price_selectors_def empty_row_def COLUMNS_def LABEL_MAP_def truthy_def

lemma base_row_update:
  assumes "map fst d = COLUMNS \<and> map_of d url_key = Some (Some url)
     \<and> map_of d kaisu_shozaikai = Some None \<and> map_of d kanri_col = Some None"
    and "f = bukkenmei \<or> f = kakaku"
  shows "map fst (AList.update f v d) = COLUMNS \<and> map_of (AList.update f v d) url_key = Some (Some url)
     \<and> map_of (AList.update f v d) kaisu_shozaikai = Some None
     \<and> map_of (AList.update f v d) kanri_col = Some None"
  using assms fixed_keys fixed_keys_distinct fixed_keys_distinct [symmetric]
  by (auto simp: update_column_keys update_conv')

lemma base_row_empty:
  "map fst (empty_row url) = COLUMNS \<and> map_of (empty_row url) url_key = Some (Some url)
     \<and> map_of (empty_row url) kaisu_shozaikai = Some None
     \<and> map_of (empty_row url) kanri_col = Some None"
  by (simp add: empty_row_keys empty_row_url empty_row_other fixed_keys fixed_keys_distinct)

lemma parse_soup_scan:
  "\<exists>d. (map fst d = COLUMNS \<and> map_of d url_key = Some (Some url)
     \<and> map_of d kaisu_shozaikai = Some None \<and> map_of d kanri_col = Some None)
     \<and> parse_soup soup url =
         finish (scan_pairs
           \<lparr>data = d, floor_value = None, total_floors = None, management_parts = []\<rparr>
           (extract_pairs soup))"
proof -
  define d1 where "d1 =
    (if truthy (pick_first_text soup name_selectors)
     then AList.update bukkenmei (pick_first_text soup name_selectors) (empty_row url)
     else empty_row url)"
  define d2 where "d2 =
    (if truthy (pick_first_text soup price_selectors)
     then AList.update kakaku (pick_first_text soup price_selectors) d1 else d1)"
  have b1: "map fst d1 = COLUMNS \<and> map_of d1 url_key = Some (Some url)
     \<and> map_of d1 kaisu_shozaikai = Some None \<and> map_of d1 kanri_col = Some None"
    unfolding d1_def using base_row_empty [of url] base_row_update [OF base_row_empty, of bukkenmei]
    by (cases "truthy (pick_first_text soup name_selectors)") simp_all
  have b2: "map fst d2 = COLUMNS \<and> map_of d2 url_key = Some (Some url)
     \<and> map_of d2 kaisu_shozaikai = Some None \<and> map_of d2 kanri_col = Some None"
    unfolding d2_def using b1 base_row_update [OF b1, of kakaku]
    by (cases "truthy (pick_first_text soup price_selectors)") simp_all
  have "parse_soup soup url =
         finish (scan_pairs
           \<lparr>data = d2, floor_value = None, total_floors = None, management_parts = []\<rparr>
           (extract_pairs soup))"
    by (simp add: parse_soup_def Let_def d1_def d2_def)
  with b2 show ?thesis by blast
qed

lemma special_not_nested:
  assumes "a \<in> {shozaikai, kaisu, kanri_keitai, kanri_gaisha}"
    and "b \<in> {shozaikai, kaisu, kanri_keitai, kanri_gaisha}" and "str_in a b"
  shows "a = b"
proof (rule ccontr)
  assume "a \<noteq> b"
  moreover have
    "\<not> str_in shozaikai kaisu" "\<not> str_in shozaikai kanri_keitai" "\<not> str_in shozaikai kanri_gaisha"
    "\<not> str_in kaisu shozaikai" "\<not> str_in kaisu kanri_keitai" "\<not> str_in kaisu kanri_gaisha"
    "\<not> str_in kanri_keitai shozaikai" "\<not> str_in kanri_keitai kaisu" "\<not> str_in kanri_keitai kanri_gaisha"
    "\<not> str_in kanri_gaisha shozaikai" "\<not> str_in kanri_gaisha kaisu" "\<not> str_in kanri_gaisha kanri_keitai"
    by (simp_all add: const_defs)
  ultimately show False
    using assms by auto
qed

lemma distinct_keys: "distinct (map fst LABEL_MAP)"
  by (simp add: LABEL_MAP_def const_defs)

lemma written_field_survives:
  assumes "parser html = Some soup"
    and "extract_pairs soup = ps1 @ (l, v) # ps2"
    and "synonym_field (normalize_text l) = Some f"
    and "\<forall>p \<in> set ps2. synonym_field (normalize_text (fst p)) \<noteq> Some f"
    and "f = kanri_col \<longrightarrow> management_values (extract_pairs soup) = []"
  shows "\<exists>row. parse_detail_page parser html url = Inr row \<and> map_of row f = Some (Some v)"
proof -
  obtain d where p: "parse_soup soup url =
         finish (scan_pairs
           \<lparr>data = d, floor_value = None, total_floors = None, management_parts = []\<rparr>
           (extract_pairs soup))"
    using parse_soup_scan [of url soup] by blast
  define s0 where "s0 = \<lparr>data = d, floor_value = None, total_floors = None, management_parts = []\<rparr>"
  have split: "scan_pairs s0 (extract_pairs soup) = scan_pairs (scan_pair (scan_pairs s0 ps1) (l, v)) ps2"
    by (simp add: assms(2) scan_pairs_append)
  have "map_of (data (scan_pair (scan_pairs s0 ps1) (l, v))) f = Some (Some v)"
    by (simp add: scan_pair_synonym [OF assms(3)] update_conv')
  then have scanned: "map_of (data (scan_pairs s0 (extract_pairs soup))) f = Some (Some v)"
    unfolding split using scan_pairs_field_other [OF assms(4)] by simp
  have "management_parts (scan_pairs s0 (extract_pairs soup)) = management_values (extract_pairs soup)"
    by (simp add: scan_pairs_management_parts s0_def)
  with assms(5) have "f \<noteq> kanri_col \<or> management_parts (scan_pairs s0 (extract_pairs soup)) = []"
    by auto
  moreover have "f \<noteq> kaisu_shozaikai"
    using assms(3) by (rule synonym_field_range(3))
  ultimately have "map_of (finish (scan_pairs s0 (extract_pairs soup))) f
      = map_of (data (scan_pairs s0 (extract_pairs soup))) f"
    by (intro finish_field_other)
  with scanned show ?thesis
    using assms(1) by (simp add: parse_detail_page_def p s0_def)
qed

subsection \<open>Order of the synonym table\<close>

text \<open>
  C4 as stated fails: the label \<open>U+5EFA U+7269 U+69CB U+9020 U+30FB U+5411 U+304D\<close>
  contains the two keys for the building structure, one inside the other, both mapped to
  the structure field; it also contains the key for the orientation, which is declared
  before both. The value of its pair is written to the orientation field, and the
  structure field, the one mapped from the first declared of the two keys, stays null.
\<close>

theorem synonym_nested_keys_counterexample:
  "LABEL_MAP ! 21 = (kozo, tatemono_kozo_col) \<and> LABEL_MAP ! 22 = (tatemono_kozo, tatemono_kozo_col)
   \<and> LABEL_MAP ! 11 = (muki, muki)
   \<and> str_in kozo tatemono_kozo
   \<and> str_in kozo (normalize_text tatemono_kozo_muki)
   \<and> str_in tatemono_kozo (normalize_text tatemono_kozo_muki)
   \<and> extract_pairs (table_of structure_rows) = [(tatemono_kozo_muki, asc ''RC'')]
   \<and> parse_detail_page (known_pages [(table_html structure_rows, table_of structure_rows)])
        (table_html structure_rows) detail_url
      = Inr (parse_soup (table_of structure_rows) detail_url)
   \<and> map_of (parse_soup (table_of structure_rows) detail_url) tatemono_kozo_col = Some None
   \<and> map_of (parse_soup (table_of structure_rows) detail_url) muki = Some (Some (asc ''RC''))"
proof -
  have t: "LABEL_MAP ! 21 = (kozo, tatemono_kozo_col)" "LABEL_MAP ! 22 = (tatemono_kozo, tatemono_kozo_col)"
    "LABEL_MAP ! 11 = (muki, muki)"
    by (simp_all add: LABEL_MAP_def)
  have c: "str_in kozo tatemono_kozo" "str_in kozo (normalize_text tatemono_kozo_muki)"
    "str_in tatemono_kozo (normalize_text tatemono_kozo_muki)"
    by (simp_all add: normalize_text_def strip_def is_space_def example_defs const_defs)
  have e: "extract_pairs (table_of structure_rows) = [(tatemono_kozo_muki, asc ''RC'')]"
    by (simp add: soup_defs example_defs const_defs)
  have p: "parse_detail_page (known_pages [(table_html structure_rows, table_of structure_rows)])
        (table_html structure_rows) detail_url
      = Inr (parse_soup (table_of structure_rows) detail_url)"
    by (simp add: parse_detail_page_def known_pages_def)
  have m: "map_of (parse_soup (table_of structure_rows) detail_url) tatemono_kozo_col = Some None"
    "map_of (parse_soup (table_of structure_rows) detail_url) muki = Some (Some (asc ''RC''))"
    by (simp_all add: parse_defs soup_defs example_defs const_defs)
  from t c e p m show ?thesis by blast
qed

text \<open>
  C4, amended: synonym matching scans the synonym table in declaration order and the first
  key of the whole table contained in the normalized label wins. For every label that
  contains two keys of the table, one inside the other, the field written is the one
  mapped from the first key of the table that the label contains: a key declared no later
  than the first declared of the two, and that key itself exactly when no key declared
  before it is contained in the label. On a page where no later pair is mapped to that
  field (and, for the management field, no pair is accumulated), the field of the row has
  the value of the pair.
\<close>

theorem synonym_first_key_wins:
  assumes "i1 < i2" and "i2 < length LABEL_MAP"
    and "str_in (fst (LABEL_MAP ! i1)) (fst (LABEL_MAP ! i2))
         \<or> str_in (fst (LABEL_MAP ! i2)) (fst (LABEL_MAP ! i1))"
    and "str_in (fst (LABEL_MAP ! i1)) (normalize_text label)"
    and "str_in (fst (LABEL_MAP ! i2)) (normalize_text label)"
  shows "\<exists>i \<le> i1.
           str_in (fst (LABEL_MAP ! i)) (normalize_text label)
           \<and> (\<forall>j < i. \<not> str_in (fst (LABEL_MAP ! j)) (normalize_text label))
           \<and> ((\<forall>j < i1. \<not> str_in (fst (LABEL_MAP ! j)) (normalize_text label)) \<longrightarrow> i = i1)
           \<and> scan_pair s (label, v) = s\<lparr>data := AList.update (snd (LABEL_MAP ! i)) (Some v) (data s)\<rparr>
           \<and> map_of (data (scan_pair s (label, v))) (snd (LABEL_MAP ! i)) = Some (Some v)
           \<and> (parser html = Some soup \<and> extract_pairs soup = ps1 @ (label, v) # ps2
                \<and> (\<forall>p \<in> set ps2. synonym_field (normalize_text (fst p)) \<noteq> Some (snd (LABEL_MAP ! i)))
                \<and> (snd (LABEL_MAP ! i) = kanri_col \<longrightarrow> management_values (extract_pairs soup) = [])
                \<longrightarrow> (\<exists>row. parse_detail_page parser html url = Inr row
                       \<and> map_of row (snd (LABEL_MAP ! i)) = Some (Some v)))"
proof -
  let ?l = "normalize_text label"
  have len: "i1 < length LABEL_MAP"
    using assms(1,2) by simp
  have mem: "LABEL_MAP ! i1 \<in> set LABEL_MAP" "LABEL_MAP ! i2 \<in> set LABEL_MAP"
    using len assms(2) by simp_all
  have plain: "?l \<notin> {shozaikai, kaisu, kanri_keitai, kanri_gaisha}"
  proof
    assume "?l \<in> {shozaikai, kaisu, kanri_keitai, kanri_gaisha}"
    then have "?l = fst (LABEL_MAP ! i1)" and "?l = fst (LABEL_MAP ! i2)"
      using keys_in_special [of "LABEL_MAP ! i1" ?l] keys_in_special [of "LABEL_MAP ! i2" ?l]
        mem assms(4,5) by auto
    then have "map fst LABEL_MAP ! i1 = map fst LABEL_MAP ! i2"
      using len assms(2) by simp
    then have "i1 = i2"
      using distinct_keys len assms(2) by (metis length_map nth_eq_iff_index_eq)
    with assms(1) show False by simp
  qed
  have "\<exists>x. x \<in> set LABEL_MAP \<and> str_in (fst x) ?l"
    using mem(1) assms(4) by blast
  then have "find (\<lambda>p. str_in (fst p) ?l) LABEL_MAP \<noteq> None"
    by (simp only: find_None_iff not_not)
  then obtain q where q: "find (\<lambda>p. str_in (fst p) ?l) LABEL_MAP = Some q"
    by auto
  then obtain i where i: "i < length LABEL_MAP" "str_in (fst (LABEL_MAP ! i)) ?l" "q = LABEL_MAP ! i"
    and least: "\<forall>j < i. \<not> str_in (fst (LABEL_MAP ! j)) ?l"
    by (auto simp: find_Some_iff)
  have le: "i \<le> i1"
    using least assms(4) by (meson not_le_imp_less)
  have first: "(\<forall>j < i1. \<not> str_in (fst (LABEL_MAP ! j)) ?l) \<longrightarrow> i = i1"
    using i(2) le by (meson le_neq_implies_less)
  have sp: "scan_pair s (label, v) = s\<lparr>data := AList.update (snd (LABEL_MAP ! i)) (Some v) (data s)\<rparr>"
    using q i(3) by (simp add: scan_pair_plain [OF plain] map_label_find)
  have written: "map_of (data (scan_pair s (label, v))) (snd (LABEL_MAP ! i)) = Some (Some v)"
    by (simp add: sp update_conv')
  have field: "synonym_field ?l = Some (snd (LABEL_MAP ! i))"
    using plain q i(3) by (simp add: synonym_field_def)
  have page: "parser html = Some soup \<and> extract_pairs soup = ps1 @ (label, v) # ps2
                \<and> (\<forall>p \<in> set ps2. synonym_field (normalize_text (fst p)) \<noteq> Some (snd (LABEL_MAP ! i)))
                \<and> (snd (LABEL_MAP ! i) = kanri_col \<longrightarrow> management_values (extract_pairs soup) = [])
                \<longrightarrow> (\<exists>row. parse_detail_page parser html url = Inr row
                       \<and> map_of row (snd (LABEL_MAP ! i)) = Some (Some v))"
    using written_field_survives [of parser html soup ps1 label v ps2 "snd (LABEL_MAP ! i)" url]
      field by blast
  from le i(2) least first sp written page show ?thesis
    by blast
qed

theorem synonym_first_key_wins_witness:
  "(21 :: nat) < 22 \<and> 22 < length LABEL_MAP
   \<and> LABEL_MAP ! 21 = (kozo, tatemono_kozo_col) \<and> LABEL_MAP ! 22 = (tatemono_kozo, tatemono_kozo_col)
   \<and> LABEL_MAP ! 11 = (muki, muki)
   \<and> str_in kozo tatemono_kozo
   \<and> str_in kozo (normalize_text tatemono_kozo_muki)
   \<and> str_in tatemono_kozo (normalize_text tatemono_kozo_muki)
   \<and> known_pages [(table_html structure_rows, table_of structure_rows)] (table_html structure_rows)
       = Some (table_of structure_rows)
   \<and> extract_pairs (table_of structure_rows) = [] @ (tatemono_kozo_muki, asc ''RC'') # []
   \<and> find (\<lambda>p. str_in (fst p) (normalize_text tatemono_kozo_muki)) LABEL_MAP = Some (muki, muki)
   \<and> (\<exists>i \<le> 21.
         str_in (fst (LABEL_MAP ! i)) (normalize_text tatemono_kozo_muki)
         \<and> scan_pair \<lparr>data = empty_row detail_url, floor_value = None, total_floors = None,
                management_parts = []\<rparr> (tatemono_kozo_muki, asc ''RC'')
            = \<lparr>data = AList.update (snd (LABEL_MAP ! i)) (Some (asc ''RC'')) (empty_row detail_url),
                floor_value = None, total_floors = None, management_parts = []\<rparr>)
   \<and> (\<exists>row. parse_detail_page (known_pages [(table_html structure_rows, table_of structure_rows)])
                (table_html structure_rows) detail_url = Inr row
         \<and> map_of row muki = Some (Some (asc ''RC'')))"
proof -
  have a: "(21 :: nat) < 22" "22 < length LABEL_MAP"
    by (simp_all add: LABEL_MAP_def)
  have t: "LABEL_MAP ! 21 = (kozo, tatemono_kozo_col)" "LABEL_MAP ! 22 = (tatemono_kozo, tatemono_kozo_col)"
    "LABEL_MAP ! 11 = (muki, muki)"
    by (simp_all add: LABEL_MAP_def)
  have c: "str_in kozo tatemono_kozo" "str_in kozo (normalize_text tatemono_kozo_muki)"
    "str_in tatemono_kozo (normalize_text tatemono_kozo_muki)"
    by (simp_all add: normalize_text_def strip_def is_space_def example_defs const_defs)
  have n: "str_in (fst (LABEL_MAP ! 21)) (fst (LABEL_MAP ! 22))
         \<or> str_in (fst (LABEL_MAP ! 22)) (fst (LABEL_MAP ! 21))"
    "str_in (fst (LABEL_MAP ! 21)) (normalize_text tatemono_kozo_muki)"
    "str_in (fst (LABEL_MAP ! 22)) (normalize_text tatemono_kozo_muki)"
    using c by (simp_all add: t)
  have h: "known_pages [(table_html structure_rows, table_of structure_rows)] (table_html structure_rows)
       = Some (table_of structure_rows)"
    by (simp add: known_pages_def)
  have e: "extract_pairs (table_of structure_rows) = [] @ (tatemono_kozo_muki, asc ''RC'') # []"
    by (simp add: soup_defs example_defs const_defs)
  have f: "find (\<lambda>p. str_in (fst p) (normalize_text tatemono_kozo_muki)) LABEL_MAP = Some (muki, muki)"
    by (simp add: LABEL_MAP_def normalize_text_def strip_def is_space_def example_defs const_defs)
  have m: "map_of (parse_soup (table_of structure_rows) detail_url) muki = Some (Some (asc ''RC''))"
    by (simp add: parse_defs soup_defs example_defs const_defs)
  have r: "\<exists>row. parse_detail_page (known_pages [(table_html structure_rows, table_of structure_rows)])
                (table_html structure_rows) detail_url = Inr row
         \<and> map_of row muki = Some (Some (asc ''RC''))"
    using m by (simp add: parse_detail_page_def known_pages_def)
  from synonym_first_key_wins [of 21 22 tatemono_kozo_muki
      "\<lparr>data = empty_row detail_url, floor_value = None, total_floors = None, management_parts = []\<rparr>"
      "asc ''RC''" "known_pages [(table_html structure_rows, table_of structure_rows)]"
      "table_html structure_rows" "table_of structure_rows" "[]" "[]" detail_url, OF a n]
  have w: "\<exists>i \<le> 21.
         str_in (fst (LABEL_MAP ! i)) (normalize_text tatemono_kozo_muki)
         \<and> scan_pair \<lparr>data = empty_row detail_url, floor_value = None, total_floors = None,
                management_parts = []\<rparr> (tatemono_kozo_muki, asc ''RC'')
            = \<lparr>data = AList.update (snd (LABEL_MAP ! i)) (Some (asc ''RC'')) (empty_row detail_url),
                floor_value = None, total_floors = None, management_parts = []\<rparr>"
    by auto
  from a t c h e f w r show ?thesis
    by blast
qed

lemma parse_detail_page_soup:
  "parser html = Some soup \<Longrightarrow> parse_detail_page parser html url = Inr (parse_soup soup url)"
  by (simp add: parse_detail_page_def)

lemma last_value_truthy:
  assumes "last_value l (extract_pairs soup) = Some v"
  shows "v \<noteq> []"
  using last_value_mem [OF assms] extract_pairs_nonempty by blast

subsection \<open>Floors\<close>

text \<open>
  C6: the floor field of the row of a detail page is the value held for the floor of the
  unit and the value held for the number of floors, joined by \<open>" / "\<close>; with only one of
  the two it is that value alone, and with neither it stays null. The value held for a
  label is the value of the last pair with that label. For the values \<open>3\<close>\<open>U+968E\<close> and
  \<open>10\<close>\<open>U+968E U+5EFA\<close> the field is \<open>3\<close>\<open>U+968E\<close>\<open> / 10\<close>\<open>U+968E U+5EFA\<close>.
\<close>

theorem floor_combination:
  assumes "parser html = Some soup"
  shows "\<exists>row. parse_detail_page parser html url = Inr row \<and>
           map_of row kaisu_shozaikai =
             (case (last_value shozaikai (extract_pairs soup), last_value kaisu (extract_pairs soup)) of
                (Some a, Some b) \<Rightarrow> Some (Some (a @ sep_slash @ b))
              | (Some a, None) \<Rightarrow> Some (Some a)
              | (None, Some b) \<Rightarrow> Some (Some b)
              | (None, None) \<Rightarrow> Some None)"
proof -
  obtain d where d: "map_of d kaisu_shozaikai = Some None"
    and p: "parse_soup soup url =
         finish (scan_pairs
           \<lparr>data = d, floor_value = None, total_floors = None, management_parts = []\<rparr>
           (extract_pairs soup))"
    using parse_soup_scan [of url soup] by blast
  let ?s = "scan_pairs \<lparr>data = d, floor_value = None, total_floors = None, management_parts = []\<rparr>
           (extract_pairs soup)"
  have fv: "floor_value ?s = last_value shozaikai (extract_pairs soup)"
    by (simp add: scan_pairs_floor_value split: option.splits)
  have tf: "total_floors ?s = last_value kaisu (extract_pairs soup)"
    by (simp add: scan_pairs_total_floors split: option.splits)
  have dd: "map_of (data ?s) kaisu_shozaikai = Some None"
    by (simp add: scan_pairs_floor_field d)
  have "map_of (finish ?s) kaisu_shozaikai =
             (case (last_value shozaikai (extract_pairs soup), last_value kaisu (extract_pairs soup)) of
                (Some a, Some b) \<Rightarrow> Some (Some (a @ sep_slash @ b))
              | (Some a, None) \<Rightarrow> Some (Some a)
              | (None, Some b) \<Rightarrow> Some (Some b)
              | (None, None) \<Rightarrow> Some None)"
    unfolding finish_floor fv tf dd
    by (auto simp: truthy_def dest: last_value_truthy split: option.splits)
  then show ?thesis
    by (simp add: parse_detail_page_soup [of parser html soup url, OF assms] p)
qed

theorem floor_combination_witness:
  "known_pages [(floors_html, floors_soup)] floors_html = Some floors_soup
   \<and> last_value shozaikai (extract_pairs floors_soup) = Some san_kai
   \<and> last_value kaisu (extract_pairs floors_soup) = Some ju_kai_date
   \<and> (\<exists>row. parse_detail_page (known_pages [(floors_html, floors_soup)]) floors_html detail_url = Inr row
         \<and> map_of row kaisu_shozaikai = Some (Some [0x33, 0x968E, 0x20, 0x2F, 0x20, 0x31, 0x30, 0x968E, 0x5EFA]))"
proof -
  have h: "known_pages [(floors_html, floors_soup)] floors_html = Some floors_soup"
    by (simp add: known_pages_def)
  have l: "last_value shozaikai (extract_pairs floors_soup) = Some san_kai"
    "last_value kaisu (extract_pairs floors_soup) = Some ju_kai_date"
    by (simp_all add: soup_defs example_defs const_defs)
  from h l floor_combination [of "known_pages [(floors_html, floors_soup)]" floors_html floors_soup detail_url, OF h]
  show ?thesis by (simp add: san_kai_def ju_kai_date_def sep_slash_def asc_def)
qed

subsection \<open>Management\<close>

text \<open>
  C7: when the pairs of a detail page labelled as management form or management company
  have the values \<open>vs\<close>, in that order, and there is at least one, the management field of
  the row is the values at their first occurrence, in that order, joined by \<open>" / "\<close>. For
  the values \<open>A\<close>\<open>U+793E\<close>, \<open>A\<close>\<open>U+793E\<close>, \<open>B\<close>\<open>U+793E\<close> the field is
  \<open>A\<close>\<open>U+793E\<close>\<open> / B\<close>\<open>U+793E\<close>.
\<close>

theorem management_combination:
  assumes "parser html = Some soup"
    and "management_values (extract_pairs soup) = vs" and "vs \<noteq> []"
  shows "\<exists>row. parse_detail_page parser html url = Inr row
           \<and> map_of row kanri_col = Some (Some (join sep_slash (firsts vs)))
           \<and> (vs = [a_sha, a_sha, b_sha] \<longrightarrow>
                map_of row kanri_col = Some (Some [0x41, 0x793E, 0x20, 0x2F, 0x20, 0x42, 0x793E]))"
proof -
  obtain d where p: "parse_soup soup url =
         finish (scan_pairs
           \<lparr>data = d, floor_value = None, total_floors = None, management_parts = []\<rparr>
           (extract_pairs soup))"
    using parse_soup_scan [of url soup] by blast
  let ?s = "scan_pairs \<lparr>data = d, floor_value = None, total_floors = None, management_parts = []\<rparr>
           (extract_pairs soup)"
  have m: "management_parts ?s = vs"
    by (simp add: scan_pairs_management_parts assms(2))
  have field: "map_of (finish ?s) kanri_col = Some (Some (join sep_slash (firsts vs)))"
    using finish_management [of ?s] assms(3) by (simp add: m fromkeys_firsts)
  have "join sep_slash (firsts [a_sha, a_sha, b_sha]) = [0x41, 0x793E, 0x20, 0x2F, 0x20, 0x42, 0x793E]"
    by (simp add: firsts_def a_sha_def b_sha_def sep_slash_def asc_def)
  with field show ?thesis
    by (auto simp: parse_detail_page_soup [of parser html soup url, OF assms(1)] p)
qed

theorem management_combination_witness:
  "known_pages [(table_html management_rows, table_of management_rows)] (table_html management_rows)
     = Some (table_of management_rows)
   \<and> management_values (extract_pairs (table_of management_rows)) = [a_sha, a_sha, b_sha]
   \<and> (\<exists>row. parse_detail_page (known_pages [(table_html management_rows, table_of management_rows)])
                (table_html management_rows) detail_url = Inr row
         \<and> map_of row kanri_col = Some (Some [0x41, 0x793E, 0x20, 0x2F, 0x20, 0x42, 0x793E]))"
proof -
  have h: "known_pages [(table_html management_rows, table_of management_rows)] (table_html management_rows)
     = Some (table_of management_rows)"
    by (simp add: known_pages_def)
  have v: "management_values (extract_pairs (table_of management_rows)) = [a_sha, a_sha, b_sha]"
    by (simp add: management_values_def soup_defs example_defs const_defs)
  have n: "[a_sha, a_sha, b_sha] \<noteq> []"
    by simp
  from h v management_combination [of "known_pages [(table_html management_rows, table_of management_rows)]"
      "table_html management_rows" "table_of management_rows" "[a_sha, a_sha, b_sha]" detail_url, OF h v n]
  show ?thesis by auto
qed

subsection \<open>Later pairs overwrite earlier ones\<close>

text \<open>
  C5 as stated fails: a page with the pairs (management company, \<open>Z\<close>),
  (name of the management company, \<open>X\<close>), (name of the management company, \<open>Y\<close>) has
  two pairs that the synonym table maps to the management field, the later with the
  value \<open>Y\<close>, and the management field of its row is \<open>Z\<close>.
\<close>

theorem last_write_wins_counterexample:
  "extract_pairs (table_of company_rows)
     = [(kanri_gaisha, asc ''Z''), (kanri_gaisha_mei, asc ''X''), (kanri_gaisha_mei, asc ''Y'')]
   \<and> synonym_field (normalize_text kanri_gaisha_mei) = Some kanri_col
   \<and> parse_detail_page (known_pages [(table_html company_rows, table_of company_rows)])
        (table_html company_rows) detail_url
      = Inr (parse_soup (table_of company_rows) detail_url)
   \<and> map_of (parse_soup (table_of company_rows) detail_url) kanri_col = Some (Some (asc ''Z''))
   \<and> asc ''Z'' \<noteq> asc ''Y''"
proof -
  have e: "extract_pairs (table_of company_rows)
     = [(kanri_gaisha, asc ''Z''), (kanri_gaisha_mei, asc ''X''), (kanri_gaisha_mei, asc ''Y'')]"
    by (simp add: soup_defs example_defs const_defs)
  have s: "synonym_field (normalize_text kanri_gaisha_mei) = Some kanri_col"
    by (simp add: synonym_field_def LABEL_MAP_def normalize_text_def strip_def is_space_def
        example_defs const_defs)
  have p: "parse_detail_page (known_pages [(table_html company_rows, table_of company_rows)])
        (table_html company_rows) detail_url
      = Inr (parse_soup (table_of company_rows) detail_url)"
    by (simp add: parse_detail_page_def known_pages_def)
  have m: "map_of (parse_soup (table_of company_rows) detail_url) kanri_col = Some (Some (asc ''Z''))"
    by (simp add: parse_defs soup_defs example_defs const_defs)
  have "asc ''Z'' \<noteq> asc ''Y''"
    by (simp add: asc_def)
  with e s p m show ?thesis by blast
qed

text \<open>
  C5, amended: when two pairs of a detail page are mapped by the synonym table to the same
  field and no pair after the later of the two is mapped to that field, the value of that
  field in the row is the value of the later pair, unless the field is the management
  field and the page has a pair labelled exactly as management form or management company.
\<close>

theorem last_write_wins:
  assumes "parser html = Some soup"
    and "extract_pairs soup = ps1 @ (l1, v1) # ps2 @ (l2, v2) # ps3"
    and "synonym_field (normalize_text l1) = Some f"
    and "synonym_field (normalize_text l2) = Some f"
    and "\<forall>p \<in> set ps3. synonym_field (normalize_text (fst p)) \<noteq> Some f"
    and "f = kanri_col \<longrightarrow> management_values (extract_pairs soup) = []"
  shows "\<exists>row. parse_detail_page parser html url = Inr row \<and> map_of row f = Some (Some v2)"
proof -
  obtain d where p: "parse_soup soup url =
         finish (scan_pairs
           \<lparr>data = d, floor_value = None, total_floors = None, management_parts = []\<rparr>
           (extract_pairs soup))"
    using parse_soup_scan [of url soup] by blast
  let ?s0 = "\<lparr>data = d, floor_value = None, total_floors = None, management_parts = []\<rparr>"
  let ?s1 = "scan_pairs ?s0 (ps1 @ (l1, v1) # ps2)"
  let ?s = "scan_pairs ?s0 (extract_pairs soup)"
  have split: "?s = scan_pairs (scan_pair ?s1 (l2, v2)) ps3"
    by (simp add: assms(2) scan_pairs_append)
  have "map_of (data (scan_pair ?s1 (l2, v2))) f = Some (Some v2)"
    by (simp add: scan_pair_synonym [OF assms(4)] update_conv')
  then have scanned: "map_of (data ?s) f = Some (Some v2)"
    unfolding split using scan_pairs_field_other [OF assms(5)] by simp
  have "management_parts ?s = management_values (extract_pairs soup)"
    by (simp add: scan_pairs_management_parts)
  with assms(6) have "f \<noteq> kanri_col \<or> management_parts ?s = []"
    by auto
  moreover have "f \<noteq> kaisu_shozaikai"
    using assms(3) by (rule synonym_field_range(3))
  ultimately have "map_of (finish ?s) f = map_of (data ?s) f"
    by (intro finish_field_other)
  with scanned show ?thesis
    by (simp add: parse_detail_page_soup [of parser html soup url, OF assms(1)] p)
qed

theorem last_write_wins_witness:
  "known_pages [(table_html price_rows, table_of price_rows)] (table_html price_rows)
     = Some (table_of price_rows)
   \<and> extract_pairs (table_of price_rows) = [] @ (kakaku, asc ''1'') # [] @ (hanbai_kakaku, asc ''2'') # []
   \<and> synonym_field (normalize_text kakaku) = Some kakaku
   \<and> synonym_field (normalize_text hanbai_kakaku) = Some kakaku
   \<and> kakaku \<noteq> kanri_col
   \<and> (\<exists>row. parse_detail_page (known_pages [(table_html price_rows, table_of price_rows)])
                (table_html price_rows) detail_url = Inr row
         \<and> map_of row kakaku = Some (Some (asc ''2'')))"
proof -
  have h: "known_pages [(table_html price_rows, table_of price_rows)] (table_html price_rows)
     = Some (table_of price_rows)"
    by (simp add: known_pages_def)
  have e: "extract_pairs (table_of price_rows)
     = [] @ (kakaku, asc ''1'') # [] @ (hanbai_kakaku, asc ''2'') # []"
    by (simp add: soup_defs example_defs const_defs)
  have s: "synonym_field (normalize_text kakaku) = Some kakaku"
    "synonym_field (normalize_text hanbai_kakaku) = Some kakaku"
    by (simp_all add: synonym_field_def LABEL_MAP_def normalize_text_def strip_def is_space_def
        const_defs)
  have n: "\<forall>p \<in> set []. synonym_field (normalize_text (fst p)) \<noteq> Some kakaku"
    by simp
  have m: "kakaku = kanri_col \<longrightarrow> management_values (extract_pairs (table_of price_rows)) = []"
    by (simp add: const_defs)
  have k: "kakaku \<noteq> kanri_col"
    by (simp add: const_defs)
  from h e s k
    last_write_wins [of "known_pages [(table_html price_rows, table_of price_rows)]"
      "table_html price_rows" "table_of price_rows" "[]" kakaku "asc ''1''" "[]" hanbai_kakaku
      "asc ''2''" "[]" kakaku detail_url, OF h e s n m]
  show ?thesis by blast
qed

subsection \<open>Labels that contain a floor or management label\<close>

text \<open>
  C10 as stated fails: the label \<open>U+6240 U+5728 U+968E U+6570\<close> strictly contains the
  floor label \<open>U+6240 U+5728 U+968E\<close>, but neither floor label is a key of the synonym
  table and the label contains no key, so its pair writes no field at all: the row of a
  page with that pair alone is the row with every field null but the URL.
\<close>

theorem strict_label_overwrites_counterexample:
  "str_in shozaikai (normalize_text shozaikaisu) \<and> normalize_text shozaikaisu \<noteq> shozaikai
   \<and> extract_pairs (table_of floor_count_rows) = [(shozaikaisu, asc ''3'')]
   \<and> scan_pair \<lparr>data = empty_row detail_url, floor_value = None, total_floors = None,
          management_parts = []\<rparr> (shozaikaisu, asc ''3'')
      = \<lparr>data = empty_row detail_url, floor_value = None, total_floors = None,
          management_parts = []\<rparr>
   \<and> parse_detail_page (known_pages [(table_html floor_count_rows, table_of floor_count_rows)])
        (table_html floor_count_rows) detail_url
      = Inr (empty_row detail_url)"
proof -
  have a: "str_in shozaikai (normalize_text shozaikaisu)" "normalize_text shozaikaisu \<noteq> shozaikai"
    by (simp_all add: normalize_text_def strip_def is_space_def example_defs const_defs)
  have e: "extract_pairs (table_of floor_count_rows) = [(shozaikaisu, asc ''3'')]"
    by (simp add: soup_defs example_defs const_defs)
  have s: "scan_pair \<lparr>data = empty_row detail_url, floor_value = None, total_floors = None,
          management_parts = []\<rparr> (shozaikaisu, asc ''3'')
      = \<lparr>data = empty_row detail_url, floor_value = None, total_floors = None,
          management_parts = []\<rparr>"
    by (simp add: scan_pair_def LABEL_MAP_def normalize_text_def strip_def is_space_def
        example_defs const_defs)
  have "parse_soup (table_of floor_count_rows) detail_url = empty_row detail_url"
    by (simp add: parse_defs soup_defs example_defs const_defs)
  then have p: "parse_detail_page (known_pages [(table_html floor_count_rows, table_of floor_count_rows)])
        (table_html floor_count_rows) detail_url
      = Inr (empty_row detail_url)"
    by (simp add: parse_detail_page_def known_pages_def)
  from a e s p show ?thesis by blast
qed

text \<open>
  C10, amended: a pair whose normalized label strictly contains one of the four labels
  without being equal to it is neither held aside nor accumulated; it goes through the
  scan of the synonym table, which overwrites the field of the first key of the table
  contained in the label when there is one and writes nothing otherwise. There is always
  one when the label contains the label of the management form or of the management
  company. And for every page with such a pair, a non-empty management accumulation
  decides the management field of the row, whatever the pair wrote there.
\<close>

theorem strict_label_goes_through_scan:
  assumes "special \<in> {shozaikai, kaisu, kanri_keitai, kanri_gaisha}"
    and "str_in special (normalize_text l)" and "normalize_text l \<noteq> special"
  shows "floor_value (scan_pair s (l, v)) = floor_value s
     \<and> total_floors (scan_pair s (l, v)) = total_floors s
     \<and> management_parts (scan_pair s (l, v)) = management_parts s
     \<and> data (scan_pair s (l, v)) =
         (case find (\<lambda>p. str_in (fst p) (normalize_text l)) LABEL_MAP of
            None \<Rightarrow> data s
          | Some p \<Rightarrow> AList.update (snd p) (Some v) (data s))
     \<and> (special \<in> {kanri_keitai, kanri_gaisha} \<longrightarrow>
          find (\<lambda>p. str_in (fst p) (normalize_text l)) LABEL_MAP \<noteq> None)
     \<and> (parser html = Some soup \<and> (l, v) \<in> set (extract_pairs soup)
          \<and> management_values (extract_pairs soup) \<noteq> [] \<longrightarrow>
          (\<exists>row. parse_detail_page parser html url = Inr row
             \<and> map_of row kanri_col =
                 Some (Some (join sep_slash (firsts (management_values (extract_pairs soup)))))))"
proof -
  have plain: "normalize_text l \<notin> {shozaikai, kaisu, kanri_keitai, kanri_gaisha}"
    using special_not_nested [OF assms(1) _ assms(2)] assms(3) by blast
  have sp: "scan_pair s (l, v) = s\<lparr>data := map_label LABEL_MAP (normalize_text l) v (data s)\<rparr>"
    by (rule scan_pair_plain [OF plain])
  have hit: "find (\<lambda>p. str_in (fst p) (normalize_text l)) LABEL_MAP \<noteq> None"
    if "special \<in> {kanri_keitai, kanri_gaisha}"
  proof -
    have "(special, kanri_col) \<in> set LABEL_MAP"
      using that by (auto simp: LABEL_MAP_def)
    with assms(2) have "\<exists>x. x \<in> set LABEL_MAP \<and> str_in (fst x) (normalize_text l)"
      by force
    then show ?thesis
      by (simp only: find_None_iff not_not)
  qed
  have page: "\<exists>row. parse_detail_page parser html url = Inr row
             \<and> map_of row kanri_col =
                 Some (Some (join sep_slash (firsts (management_values (extract_pairs soup)))))"
    if "parser html = Some soup" and "management_values (extract_pairs soup) \<noteq> []"
  proof -
    obtain d where p: "parse_soup soup url =
         finish (scan_pairs
           \<lparr>data = d, floor_value = None, total_floors = None, management_parts = []\<rparr>
           (extract_pairs soup))"
      using parse_soup_scan [of url soup] by blast
    let ?t = "scan_pairs \<lparr>data = d, floor_value = None, total_floors = None, management_parts = []\<rparr>
           (extract_pairs soup)"
    have m: "management_parts ?t = management_values (extract_pairs soup)"
      by (simp add: scan_pairs_management_parts)
    have "map_of (finish ?t) kanri_col =
            Some (Some (join sep_slash (firsts (management_values (extract_pairs soup)))))"
      using finish_management [of ?t] that(2) by (simp add: m fromkeys_firsts)
    then show ?thesis
      by (simp add: parse_detail_page_soup [of parser html soup url, OF that(1)] p)
  qed
  from sp hit page show ?thesis
    by (simp add: map_label_find)
qed

theorem strict_label_goes_through_scan_witness:
  "kanri_gaisha \<in> {shozaikai, kaisu, kanri_keitai, kanri_gaisha}
   \<and> str_in kanri_gaisha (normalize_text kanri_gaisha_mei)
   \<and> normalize_text kanri_gaisha_mei \<noteq> kanri_gaisha
   \<and> known_pages [(table_html named_company_rows, table_of named_company_rows)]
        (table_html named_company_rows) = Some (table_of named_company_rows)
   \<and> (kanri_gaisha_mei, a_sha) \<in> set (extract_pairs (table_of named_company_rows))
   \<and> management_values (extract_pairs (table_of named_company_rows)) = [b_sha]
   \<and> data (scan_pair \<lparr>data = empty_row detail_url, floor_value = None, total_floors = None,
          management_parts = []\<rparr> (kanri_gaisha_mei, a_sha))
      = AList.update kanri_col (Some a_sha) (empty_row detail_url)
   \<and> (\<exists>row. parse_detail_page (known_pages [(table_html named_company_rows, table_of named_company_rows)])
                (table_html named_company_rows) detail_url = Inr row
         \<and> map_of row kanri_col = Some (Some b_sha))"
proof -
  have a: "kanri_gaisha \<in> {shozaikai, kaisu, kanri_keitai, kanri_gaisha}"
    by simp
  have b: "str_in kanri_gaisha (normalize_text kanri_gaisha_mei)"
    "normalize_text kanri_gaisha_mei \<noteq> kanri_gaisha"
    by (simp_all add: normalize_text_def strip_def is_space_def example_defs const_defs)
  have h: "known_pages [(table_html named_company_rows, table_of named_company_rows)]
        (table_html named_company_rows) = Some (table_of named_company_rows)"
    by (simp add: known_pages_def)
  have e: "extract_pairs (table_of named_company_rows) = [(kanri_gaisha_mei, a_sha), (kanri_keitai, b_sha)]"
    by (simp add: soup_defs example_defs const_defs)
  have m: "management_values (extract_pairs (table_of named_company_rows)) = [b_sha]"
    unfolding e by (simp add: management_values_def normalize_text_def strip_def is_space_def
        example_defs const_defs)
  have f: "find (\<lambda>p. str_in (fst p) (normalize_text kanri_gaisha_mei)) LABEL_MAP
             = Some (kanri_gaisha, kanri_col)"
    by (simp add: LABEL_MAP_def normalize_text_def strip_def is_space_def example_defs const_defs)
  have j: "join sep_slash (firsts [b_sha]) = b_sha"
    by (simp add: firsts_def)
  from a b h e m f j
    strict_label_goes_through_scan [of kanri_gaisha kanri_gaisha_mei
      "\<lparr>data = empty_row detail_url, floor_value = None, total_floors = None, management_parts = []\<rparr>"
      a_sha "known_pages [(table_html named_company_rows, table_of named_company_rows)]"
      "table_html named_company_rows" "table_of named_company_rows" detail_url, OF a b]
  show ?thesis by simp
qed

subsection \<open>Table rows\<close>

text \<open>
  C2 as stated fails: a table row with two label cells and one value cell contributes a
  pair, made of its first label cell and its value cell.
\<close>

theorem table_rows_exactly_one_counterexample:
  "length (find_all two_label_row (asc ''th'')) = 2
   \<and> length (find_all two_label_row (asc ''td'')) = 1
   \<and> select two_label_page [[Type_sel (asc ''table'')]] = [el ''table'' [two_label_row]]
   \<and> select (el ''table'' [two_label_row]) [[Type_sel (asc ''tr'')]] = [two_label_row]
   \<and> row_pairs two_label_row = [(asc ''A'', asc ''C'')]
   \<and> extract_pairs two_label_page = [(asc ''A'', asc ''C'')]"
  by (simp add: soup_defs example_defs asc_def)

text \<open>
  C2, amended: for every table of the detail page, in document order, and every row of the
  table, pair extraction takes the rows that have at least one label (th) cell and at
  least one value (td) cell, pairing the normalized text of the first label cell with that
  of the first value cell when both are non-empty; a row with no label cell or no value
  cell contributes no pair, and so does a row whose first label or first value is empty.
\<close>

theorem table_row_pairs:
  "(find_all row (asc ''th'') = [] \<or> find_all row (asc ''td'') = [] \<longrightarrow> row_pairs row = [])
   \<and> (find_all row (asc ''th'') = th # ths \<and> find_all row (asc ''td'') = td # tds \<longrightarrow>
        row_pairs row =
          (if normalize_text (get_text_strip th) \<noteq> [] \<and> normalize_text (get_text_strip td) \<noteq> []
           then [(normalize_text (get_text_strip th), normalize_text (get_text_strip td))]
           else []))
   \<and> extract_pairs soup =
        dl_loop (select soup [[Type_sel (asc ''dl'')]])
        @ concat (map (\<lambda>table. concat (map row_pairs (select table [[Type_sel (asc ''tr'')]])))
            (select soup [[Type_sel (asc ''table'')]]))"
  by (auto simp: row_pairs_def find_tag_def Let_def extract_pairs_def table_loop_concat
      split: list.splits)

theorem table_row_pairs_witness:
  "find_all no_label_row (asc ''th'') = []
   \<and> row_pairs no_label_row = []
   \<and> find_all two_label_row (asc ''th'') = [el ''th'' [str (asc ''A'')], el ''th'' [str (asc ''B'')]]
   \<and> find_all two_label_row (asc ''td'') = [el ''td'' [str (asc ''C'')]]
   \<and> row_pairs two_label_row = [(asc ''A'', asc ''C'')]
   \<and> extract_pairs two_label_page = [(asc ''A'', asc ''C'')]"
proof -
  have n: "find_all no_label_row (asc ''th'') = []"
    by (simp add: soup_defs example_defs asc_def)
  have t: "find_all two_label_row (asc ''th'') = [el ''th'' [str (asc ''A'')], el ''th'' [str (asc ''B'')]]"
    "find_all two_label_row (asc ''td'') = [el ''td'' [str (asc ''C'')]]"
    by (simp_all add: soup_defs example_defs asc_def)
  have g: "normalize_text (get_text_strip (el ''th'' [str (asc ''A'')])) = asc ''A''"
    "normalize_text (get_text_strip (el ''td'' [str (asc ''C'')])) = asc ''C''"
    by (simp_all add: soup_defs asc_def)
  have s: "select two_label_page [[Type_sel (asc ''dl'')]] = []"
    "select two_label_page [[Type_sel (asc ''table'')]] = [el ''table'' [two_label_row]]"
    "select (el ''table'' [two_label_row]) [[Type_sel (asc ''tr'')]] = [two_label_row]"
    by (simp_all add: soup_defs example_defs asc_def)
  have a: "asc ''A'' \<noteq> []" "asc ''C'' \<noteq> []"
    by (simp_all add: asc_def)
  from n t g s a
    table_row_pairs [of no_label_row "el ''th'' [str (asc ''A'')]" "[]" "el ''td'' [str (asc ''C'')]" "[]" two_label_page]
    table_row_pairs [of two_label_row "el ''th'' [str (asc ''A'')]" "[el ''th'' [str (asc ''B'')]]"
      "el ''td'' [str (asc ''C'')]" "[]" two_label_page]
  show ?thesis by simp
qed

subsection \<open>Fetching\<close>

text \<open>
  C3 as stated fails: 203 is a success status, and a response with status 203 and a body
  makes the fetch return no body.
\<close>

theorem fetch_success_status_counterexample:
  "http_success_status 203
   \<and> site [(detail_url, Response 203 (asc ''<h1>A</h1>''))] 0 detail_url
       = Response 203 (asc ''<h1>A</h1>'')
   \<and> fetch_html (site [(detail_url, Response 203 (asc ''<h1>A</h1>''))]) 0 detail_url = None"
  by (simp add: http_success_status_def site_def fetch_html_def)

text \<open>
  C3, amended: a fetch returns the page body if and only if the request returns a response
  with status 200; any other status, also another success status, and any request
  exception make the fetch return no body.
\<close>

theorem fetch_html_iff:
  "(fetch_html session k url = Some body \<longleftrightarrow> session k url = Response 200 body)
   \<and> (fetch_html session k url = None \<longleftrightarrow> (\<forall>body. session k url \<noteq> Response 200 body))"
  by (auto simp: fetch_html_def split: http_outcome.splits)

lemmas crawl_defs = listing_url_def listing_url2_def detail_url2_def detail_url3_def
  page1_html_def page1_soup_def page2_html_def page2_soup_def rejected_html_def
  crawl_parser_def crawl_site_def broken_site_def malformed_html_def malformed_soup_def
  malformed_site_def

lemmas listing_defs = extract_detail_urls_def extract_next_page_url_def detail_href_def
  next_labels_def page_detail_urls_def fetch_html_def truthy_def

subsection \<open>The listing walk\<close>

lemma extract_detail_urls_returned:
  "(case extract_detail_urls parser urljoin html url of Inl e \<Rightarrow> False | Inr urls \<Rightarrow> True) \<Longrightarrow>
     extract_detail_urls parser urljoin html url = Inr (page_detail_urls parser urljoin (url, html))"
  by (auto simp: page_detail_urls_def split: sum.splits)

lemma walk_step:
  assumes "url \<noteq> []" and "fetch_html session (length rq) url = Some html" and "html \<noteq> []"
    and "case extract_detail_urls parser urljoin html url of Inl e \<Rightarrow> False | Inr urls \<Rightarrow> True"
    and "extract_next_page_url parser urljoin html url = Inr nxt"
  shows "listing_walk parser urljoin session (Some url)
           \<lparr>requested = rq, detail_urls = firsts pre, seen_detail_urls = set pre\<rparr>
         = listing_walk parser urljoin session nxt
             \<lparr>requested = rq @ [url],
              detail_urls = firsts (pre @ page_detail_urls parser urljoin (url, html)),
              seen_detail_urls = set (pre @ page_detail_urls parser urljoin (url, html))\<rparr>"
  using assms
  by (subst listing_walk.simps)
     (simp add: truthy_def Let_def extract_detail_urls_returned collect_from)

lemma walk_run:
  assumes "page_run parser urljoin session (length rq) (page # pages)"
    and "extract_next_page_url parser urljoin (snd (last (page # pages))) (fst (last (page # pages)))
           = Inr nxt"
  shows "listing_walk parser urljoin session (Some (fst page))
           \<lparr>requested = rq, detail_urls = firsts pre, seen_detail_urls = set pre\<rparr>
         = listing_walk parser urljoin session nxt
             \<lparr>requested = rq @ map fst (page # pages),
              detail_urls =
                firsts (pre @ concat (map (page_detail_urls parser urljoin) (page # pages))),
              seen_detail_urls =
                set (pre @ concat (map (page_detail_urls parser urljoin) (page # pages)))\<rparr>"
  using assms
proof (induction pages arbitrary: page rq pre)
  case Nil
  obtain url html where page: "page = (url, html)"
    by (cases page)
  from Nil show ?case
    unfolding page using walk_step [of url session rq html parser urljoin nxt pre] by simp
next
  case (Cons page2 pages)
  obtain url html where page: "page = (url, html)"
    by (cases page)
  from Cons.prems(1) have facts: "url \<noteq> []" "fetch_html session (length rq) url = Some html"
    "html \<noteq> []"
    "case extract_detail_urls parser urljoin html url of Inl e \<Rightarrow> False | Inr urls \<Rightarrow> True"
    "extract_next_page_url parser urljoin html url = Inr (Some (fst page2))"
    and rest: "page_run parser urljoin session (length (rq @ [url])) (page2 # pages)"
    unfolding page by simp_all
  have last: "extract_next_page_url parser urljoin (snd (last (page2 # pages)))
      (fst (last (page2 # pages))) = Inr nxt"
    using Cons.prems(2) by simp
  show ?case
    unfolding page
    using walk_step [OF facts, of pre]
      Cons.IH [OF rest last, of "pre @ page_detail_urls parser urljoin (url, html)"]
    by simp
qed

lemma listing_walk_end: "listing_walk parser urljoin session None w = Some (Inr w)"
  by (subst listing_walk.simps) (simp add: truthy_def)

lemma listing_walk_fails:
  assumes "url \<noteq> []" and "fetch_html session (length (requested w)) url = None"
  shows "listing_walk parser urljoin session (Some url) w
           = Some (Inl (Failed_to_fetch_listing_page url))"
  using assms by (subst listing_walk.simps) (simp add: truthy_def Let_def)



lemma page1_facts:
  "crawl_parser page1_html = Some page1_soup"
  "extract_detail_urls crawl_parser host_join page1_html listing_url = Inr [detail_url, detail_url2]"
  "extract_next_page_url crawl_parser host_join page1_html listing_url = Inr (Some listing_url2)"
  by (simp_all add: listing_defs soup_defs crawl_defs example_defs asc_def)

lemma page2_facts:
  "crawl_parser page2_html = Some page2_soup"
  "extract_detail_urls crawl_parser host_join page2_html listing_url2 = Inr [detail_url2, detail_url3]"
  "extract_next_page_url crawl_parser host_join page2_html listing_url2 = Inr None"
  by (simp_all add: listing_defs soup_defs crawl_defs example_defs const_defs)

lemma crawl_site_facts:
  "fetch_html crawl_site k listing_url = Some page1_html"
  "fetch_html crawl_site k listing_url2 = Some page2_html"
  "fetch_html crawl_site k detail_url = Some (table_html price_rows)"
  "fetch_html crawl_site k detail_url2 = None"
  "fetch_html crawl_site k detail_url3 = Some rejected_html"
  "fetch_html broken_site k listing_url = Some page1_html"
  "fetch_html broken_site k listing_url2 = None"
  by (simp_all add: fetch_html_def crawl_defs example_defs asc_def)

lemma crawl_nonempty:
  "listing_url \<noteq> []" "listing_url2 \<noteq> []" "page1_html \<noteq> []" "page2_html \<noteq> []"
  "rejected_html \<noteq> []" "table_html price_rows \<noteq> []"
  by (simp_all add: crawl_defs example_defs asc_def)

lemma crawl_page_run:
  "page_run crawl_parser host_join crawl_site 0 [(listing_url, page1_html), (listing_url2, page2_html)]"
  "page_run crawl_parser host_join broken_site 0 [(listing_url, page1_html)]"
  by (simp_all add: page1_facts page2_facts crawl_site_facts crawl_nonempty)


subsection \<open>A listing page that cannot be fetched\<close>

text \<open>
  C1 as stated fails: on a site whose first listing page is fetched, with two detail URLs
  and a next link, and whose second listing page answers with status 500, the crawl
  does not go on with the two URLs collected: it ends with the error for the second
  listing page and emits no row.
\<close>

theorem listing_failure_continues_counterexample:
  "fetch_html broken_site 0 listing_url = Some page1_html
   \<and> extract_detail_urls crawl_parser host_join page1_html listing_url = Inr [detail_url, detail_url2]
   \<and> extract_next_page_url crawl_parser host_join page1_html listing_url = Inr (Some listing_url2)
   \<and> broken_site 1 listing_url2 = Response 500 []
   \<and> fetch_html broken_site 1 listing_url2 = None
   \<and> scrape_suumo crawl_parser host_join broken_site listing_url
       = Some (Inl (Failed_to_fetch_listing_page listing_url2))"
proof -
  have b: "broken_site 1 listing_url2 = Response 500 []"
    by (simp add: crawl_defs example_defs asc_def)
  have "listing_walk crawl_parser host_join broken_site (Some listing_url)
           \<lparr>requested = [], detail_urls = firsts [], seen_detail_urls = set []\<rparr>
        = listing_walk crawl_parser host_join broken_site (Some listing_url2)
           \<lparr>requested = [] @ [listing_url],
            detail_urls = firsts ([] @ page_detail_urls crawl_parser host_join (listing_url, page1_html)),
            seen_detail_urls = set ([] @ page_detail_urls crawl_parser host_join (listing_url, page1_html))\<rparr>"
    by (rule walk_step) (simp_all add: crawl_nonempty crawl_site_facts page1_facts)
  also have "\<dots> = Some (Inl (Failed_to_fetch_listing_page listing_url2))"
    by (rule listing_walk_fails) (simp_all add: crawl_nonempty crawl_site_facts)
  finally have "scrape_suumo crawl_parser host_join broken_site listing_url
       = Some (Inl (Failed_to_fetch_listing_page listing_url2))"
    by (simp add: scrape_suumo_def firsts_def)
  with b show ?thesis
    by (simp add: crawl_site_facts page1_facts)
qed

text \<open>
  C1, amended: for every crawl in which a listing-page fetch after the first one fails,
  the whole run is aborted with the error that names the page that could not be fetched;
  no row is emitted, whatever detail URLs were collected before.
\<close>

theorem listing_failure_aborts:
  assumes "page_run parser urljoin session 0 pages" and "pages \<noteq> []"
    and "extract_next_page_url parser urljoin (snd (last pages)) (fst (last pages))
           = Inr (Some next_url)"
    and "next_url \<noteq> []"
    and "fetch_html session (length pages) next_url = None"
  shows "scrape_suumo parser urljoin session (fst (hd pages))
           = Some (Inl (Failed_to_fetch_listing_page next_url))"
proof -
  from assms(2) obtain page rest where pages: "pages = page # rest"
    by (cases pages) auto
  have "listing_walk parser urljoin session (Some (fst page))
           \<lparr>requested = [], detail_urls = firsts [], seen_detail_urls = set []\<rparr>
         = listing_walk parser urljoin session (Some next_url)
             \<lparr>requested = [] @ map fst (page # rest),
              detail_urls =
                firsts ([] @ concat (map (page_detail_urls parser urljoin) (page # rest))),
              seen_detail_urls =
                set ([] @ concat (map (page_detail_urls parser urljoin) (page # rest)))\<rparr>"
    using assms(1,3) unfolding pages by (intro walk_run) simp_all
  also have "\<dots> = Some (Inl (Failed_to_fetch_listing_page next_url))"
    using assms(4,5) unfolding pages by (intro listing_walk_fails) simp_all
  finally show ?thesis
    unfolding pages by (simp add: scrape_suumo_def firsts_def)
qed

theorem listing_failure_aborts_witness:
  "page_run crawl_parser host_join broken_site 0 [(listing_url, page1_html)]
   \<and> extract_next_page_url crawl_parser host_join page1_html listing_url = Inr (Some listing_url2)
   \<and> listing_url2 \<noteq> []
   \<and> fetch_html broken_site 1 listing_url2 = None
   \<and> scrape_suumo crawl_parser host_join broken_site listing_url
       = Some (Inl (Failed_to_fetch_listing_page listing_url2))"
proof -
  have r: "page_run crawl_parser host_join broken_site 0 [(listing_url, page1_html)]"
    by (rule crawl_page_run)
  have n: "[(listing_url, page1_html)] \<noteq> []"
    by simp
  have l: "extract_next_page_url crawl_parser host_join (snd (last [(listing_url, page1_html)]))
      (fst (last [(listing_url, page1_html)])) = Inr (Some listing_url2)"
    by (simp add: page1_facts)
  have u: "listing_url2 \<noteq> []"
    by (rule crawl_nonempty)
  have f: "fetch_html broken_site (length [(listing_url, page1_html)]) listing_url2 = None"
    by (simp add: crawl_site_facts)
  from r u listing_failure_aborts [OF r n l u f]
  show ?thesis
    by (simp add: page1_facts crawl_site_facts)
qed

subsection \<open>The shape of the rows\<close>

lemma parse_soup_keys: "map fst (parse_soup soup url) = COLUMNS"
proof -
  obtain d where d: "map fst d = COLUMNS"
    and p: "parse_soup soup url =
         finish (scan_pairs
           \<lparr>data = d, floor_value = None, total_floors = None, management_parts = []\<rparr>
           (extract_pairs soup))"
    using parse_soup_scan [of url soup] by blast
  show ?thesis
    unfolding p by (intro finish_keys scan_pairs_keys) (simp add: d)
qed

lemma parse_soup_url: "map_of (parse_soup soup url) url_key = Some (Some url)"
proof -
  obtain d where d: "map_of d url_key = Some (Some url)"
    and p: "parse_soup soup url =
         finish (scan_pairs
           \<lparr>data = d, floor_value = None, total_floors = None, management_parts = []\<rparr>
           (extract_pairs soup))"
    using parse_soup_scan [of url soup] by blast
  have "map_of (parse_soup soup url) url_key
          = map_of (data (scan_pairs
              \<lparr>data = d, floor_value = None, total_floors = None, management_parts = []\<rparr>
              (extract_pairs soup))) url_key"
    unfolding p using fixed_keys_distinct by (intro finish_field_other) auto
  then show ?thesis
    by (simp add: scan_pairs_url_field d)
qed

lemma detail_record_shape:
  "list_all2 (\<lambda>row url. map fst row = COLUMNS \<and> map_of row url_key = Some (Some url))
     (detail_records parser session k urls) urls"
proof (induction urls arbitrary: k)
  case Nil
  show ?case by simp
next
  case (Cons url urls)
  show ?case
    by (auto simp: Let_def parse_detail_page_def empty_row_keys empty_row_url parse_soup_keys
        parse_soup_url Cons.IH split: option.splits sum.splits)
qed

lemma length_detail_records: "length (detail_records parser session k urls) = length urls"
  by (induction urls arbitrary: k) (simp_all add: Let_def)

lemma detail_records_nth:
  "i < length urls \<Longrightarrow>
     detail_records parser session k urls ! i =
       (if \<not> truthy (fetch_html session (k + i) (urls ! i)) then empty_row (urls ! i)
        else case parse_detail_page parser (the (fetch_html session (k + i) (urls ! i))) (urls ! i) of
               Inl e \<Rightarrow> empty_row (urls ! i)
             | Inr r \<Rightarrow> r)"
proof (induction urls arbitrary: k i)
  case Nil
  then show ?case by simp
next
  case (Cons url urls)
  show ?case
  proof (cases i)
    case 0
    then show ?thesis by (simp add: Let_def cong: sum.case_cong)
  next
    case (Suc j)
    with Cons.prems have "j < length urls"
      by simp
    from Cons.IH [OF this, of "Suc k"] Suc show ?thesis
      by (simp add: Let_def cong: sum.case_cong)
  qed
qed

text \<open>
  C8: every row of a crawl has exactly the canonical columns as its keys, in their order,
  and the detail URL in its URL field: the rows are as many as the detail URLs of the
  walk, the row of each URL in its place, whether the page was parsed, could not be
  fetched, or was rejected by the parser. The row of a page that could not be fetched or
  that the parser rejected has every other field null.
\<close>

theorem rows_have_all_columns:
  assumes "scrape_suumo parser urljoin session start_url = Some (Inr rows)"
  shows "\<exists>w. listing_walk parser urljoin session (Some start_url)
               \<lparr>requested = [], detail_urls = [], seen_detail_urls = {}\<rparr> = Some (Inr w)
           \<and> length rows = length (detail_urls w)
           \<and> list_all2 (\<lambda>row url. map fst row = COLUMNS \<and> map_of row url_key = Some (Some url))
                rows (detail_urls w)
           \<and> (\<forall>i < length rows.
                 \<not> truthy (fetch_html session (length (requested w) + i) (detail_urls w ! i))
                 \<or> parser (the (fetch_html session (length (requested w) + i) (detail_urls w ! i))) = None
                 \<longrightarrow> map fst (rows ! i) = COLUMNS
                     \<and> map_of (rows ! i) url_key = Some (Some (detail_urls w ! i))
                     \<and> (\<forall>f \<in> set COLUMNS. f \<noteq> url_key \<longrightarrow> map_of (rows ! i) f = Some None))"
proof -
  from assms obtain w where w: "listing_walk parser urljoin session (Some start_url)
               \<lparr>requested = [], detail_urls = [], seen_detail_urls = {}\<rparr> = Some (Inr w)"
    and rows: "rows = detail_records parser session (length (requested w)) (detail_urls w)"
    by (auto simp: scrape_suumo_def split: option.splits sum.splits if_splits)
  have shape: "list_all2 (\<lambda>row url. map fst row = COLUMNS \<and> map_of row url_key = Some (Some url))
                rows (detail_urls w)"
    unfolding rows by (rule detail_record_shape)
  have null: "rows ! i = empty_row (detail_urls w ! i)"
    if "i < length rows"
      and "\<not> truthy (fetch_html session (length (requested w) + i) (detail_urls w ! i))
         \<or> parser (the (fetch_html session (length (requested w) + i) (detail_urls w ! i))) = None"
    for i
    using that unfolding rows
    by (auto simp: length_detail_records detail_records_nth parse_detail_page_def)
  have "map fst (rows ! i) = COLUMNS
        \<and> map_of (rows ! i) url_key = Some (Some (detail_urls w ! i))
        \<and> (\<forall>f \<in> set COLUMNS. f \<noteq> url_key \<longrightarrow> map_of (rows ! i) f = Some None)"
    if "i < length rows"
      and "\<not> truthy (fetch_html session (length (requested w) + i) (detail_urls w ! i))
         \<or> parser (the (fetch_html session (length (requested w) + i) (detail_urls w ! i))) = None"
    for i
    unfolding null [OF that]
    by (simp add: empty_row_keys empty_row_url empty_row_other)
  with w shape show ?thesis
    by (auto simp: rows length_detail_records)
qed

theorem rows_have_all_columns_witness:
  "scrape_suumo crawl_parser host_join crawl_site listing_url
     = Some (Inr [parse_soup (table_of price_rows) detail_url, empty_row detail_url2, empty_row detail_url3])
   \<and> fetch_html crawl_site 3 detail_url2 = None
   \<and> fetch_html crawl_site 4 detail_url3 = Some rejected_html
   \<and> crawl_parser rejected_html = None
   \<and> list_all2 (\<lambda>row url. map fst row = COLUMNS \<and> map_of row url_key = Some (Some url))
        [parse_soup (table_of price_rows) detail_url, empty_row detail_url2, empty_row detail_url3]
        [detail_url, detail_url2, detail_url3]
   \<and> map_of (parse_soup (table_of price_rows) detail_url) kakaku = Some (Some (asc ''2''))"
proof -
  have r: "page_run crawl_parser host_join crawl_site 0 [(listing_url, page1_html), (listing_url2, page2_html)]"
    by (rule crawl_page_run)
  have "listing_walk crawl_parser host_join crawl_site (Some (fst (listing_url, page1_html)))
           \<lparr>requested = [], detail_urls = firsts [], seen_detail_urls = set []\<rparr>
         = listing_walk crawl_parser host_join crawl_site None
             \<lparr>requested = [] @ map fst [(listing_url, page1_html), (listing_url2, page2_html)],
              detail_urls =
                firsts ([] @ concat (map (page_detail_urls crawl_parser host_join)
                   [(listing_url, page1_html), (listing_url2, page2_html)])),
              seen_detail_urls =
                set ([] @ concat (map (page_detail_urls crawl_parser host_join)
                   [(listing_url, page1_html), (listing_url2, page2_html)]))\<rparr>"
    using r by (intro walk_run) (simp_all add: page2_facts)
  moreover have f: "firsts [detail_url, detail_url2, detail_url2, detail_url3] = [detail_url, detail_url2, detail_url3]"
    by (simp add: firsts_def crawl_defs example_defs asc_def)
  ultimately have w: "listing_walk crawl_parser host_join crawl_site (Some listing_url)
           \<lparr>requested = [], detail_urls = [], seen_detail_urls = {}\<rparr>
         = Some (Inr \<lparr>requested = [listing_url, listing_url2],
              detail_urls = [detail_url, detail_url2, detail_url3],
              seen_detail_urls = {detail_url, detail_url2, detail_url3}\<rparr>)"
    by (simp add: listing_walk_end page_detail_urls_def page1_facts page2_facts firsts_def [of "[]"])
  have p: "crawl_parser (table_html price_rows) = Some (table_of price_rows)"
    "crawl_parser rejected_html = None"
    by (simp_all add: crawl_defs example_defs asc_def)
  have s: "scrape_suumo crawl_parser host_join crawl_site listing_url
     = Some (Inr [parse_soup (table_of price_rows) detail_url, empty_row detail_url2, empty_row detail_url3])"
    by (simp add: scrape_suumo_def w Let_def crawl_site_facts crawl_nonempty truthy_def
        parse_detail_page_def p)
  have k: "map_of (parse_soup (table_of price_rows) detail_url) kakaku = Some (Some (asc ''2''))"
    by (simp add: parse_defs soup_defs example_defs const_defs)
  from s k p rows_have_all_columns [OF s] w
  show ?thesis
    by (simp add: crawl_site_facts)
qed

end
